theory Spec2Isabelle
  imports Complex_Main "HOL-Library.Log_Nat"
begin

section \<open>Variational layers of aboleth (layer.py)\<close>

text \<open>
  The module builds TensorFlow graphs. A graph node is represented here by the value it
  takes when the graph is first run after initialisation: a variable by its initial value,
  a random op by values read from a noise stream. Arithmetic on floating-point numbers is
  idealised to arithmetic on reals, so a cast between float widths is the identity; only the
  conversion of a Python integer to a float is rounded as Python rounds it. Exceptions
  raised while the graph is constructed are values of type \<open>error\<close>.
\<close>

subsection \<open>Exceptions\<close>

text \<open>
  \<open>NonFinite\<close> is not a Python exception: it marks a run that goes on with a float that is
  infinite, which the real numbers of a tensor cannot hold. Nothing is stated of such a run.
\<close>

datatype error = ValueError string | IndexError string | ZeroDivisionError string
  | OverflowError string | NonFinite string

type_synonym 'a result = "error + 'a"

text \<open>Every shape complaint of TensorFlow or numpy is a ValueError; one message stands for all.\<close>

definition shape_error :: error where
  "shape_error = ValueError ''incompatible shapes''"

definition bindE :: "'a result \<Rightarrow> ('a \<Rightarrow> 'b result) \<Rightarrow> 'b result" where
  "bindE m f = (case m of Inl e \<Rightarrow> Inl e | Inr v \<Rightarrow> f v)"

text \<open>A list comprehension \<open>[f(x) for x in xs]\<close>: left to right, the first exception wins.\<close>

fun collect :: "('a \<Rightarrow> 'b result) \<Rightarrow> 'a list \<Rightarrow> 'b list result" where
  "collect f [] = Inr []"
| "collect f (x # xs) =
     (case f x of Inl e \<Rightarrow> Inl e
      | Inr y \<Rightarrow> (case collect f xs of Inl e \<Rightarrow> Inl e | Inr ys \<Rightarrow> Inr (y # ys)))"

subsection \<open>Tensors\<close>

text \<open>A tensor (or numpy array) is its static shape and its entries in row-major order.\<close>

datatype tensor = Tensor (shape: "nat list") (vals: "real list")

definition well_shaped :: "tensor \<Rightarrow> bool" where
  "well_shaped t = (length (vals t) = prod_list (shape t))"

text \<open>A Python float met by a tensor operation is converted to a tensor of shape \<open>()\<close>.\<close>

definition scalar :: "real \<Rightarrow> tensor" where
  "scalar c = Tensor [] [c]"

definition tmap :: "(real \<Rightarrow> real) \<Rightarrow> tensor \<Rightarrow> tensor" where
  "tmap f t = Tensor (shape t) (map f (vals t))"

definition tf_zeros :: "nat list \<Rightarrow> tensor" where
  "tf_zeros dims = Tensor dims (replicate (prod_list dims) 0)"

text \<open>
  Broadcasting of a binary operation. The operand whose shape is a trailing part of the
  other's is repeated along the leading axes; in row-major order that is tiling, so entry
  \<open>i\<close> of the result pairs entry \<open>i mod size\<close> of each operand. Equal shapes and a scalar
  operand are instances. Stretching an axis of size one, which layer.py never relies on,
  is not modelled and is reported as a shape error.
\<close>

definition is_suffix :: "nat list \<Rightarrow> nat list \<Rightarrow> bool" where
  "is_suffix s t = (length s \<le> length t \<and> drop (length t - length s) t = s)"

definition elem :: "tensor \<Rightarrow> nat \<Rightarrow> real" where
  "elem t i = vals t ! (i mod length (vals t))"

definition broadcast :: "(real \<Rightarrow> real \<Rightarrow> real) \<Rightarrow> tensor \<Rightarrow> tensor \<Rightarrow> tensor result" where
  "broadcast f a b =
     (if is_suffix (shape b) (shape a)
      then Inr (Tensor (shape a) (map (\<lambda>i. f (elem a i) (elem b i)) [0..<prod_list (shape a)]))
      else if is_suffix (shape a) (shape b)
      then Inr (Tensor (shape b) (map (\<lambda>i. f (elem a i) (elem b i)) [0..<prod_list (shape b)]))
      else Inl shape_error)"

text \<open>Operations on nodes whose construction may already have failed.\<close>

definition lift1 :: "(real \<Rightarrow> real) \<Rightarrow> tensor result \<Rightarrow> tensor result" where
  "lift1 f a = (case a of Inl e \<Rightarrow> Inl e | Inr x \<Rightarrow> Inr (tmap f x))"

definition lift2 :: "(real \<Rightarrow> real \<Rightarrow> real) \<Rightarrow> tensor result \<Rightarrow> tensor result \<Rightarrow> tensor result" where
  "lift2 f a b =
     (case a of Inl e \<Rightarrow> Inl e
      | Inr x \<Rightarrow> (case b of Inl e \<Rightarrow> Inl e | Inr y \<Rightarrow> broadcast f x y))"

definition tadd :: "tensor result \<Rightarrow> tensor result \<Rightarrow> tensor result" where
  "tadd = lift2 (\<lambda>x y. x + y)"

definition tsub :: "tensor result \<Rightarrow> tensor result \<Rightarrow> tensor result" where
  "tsub = lift2 (\<lambda>x y. x - y)"

definition tmul :: "tensor result \<Rightarrow> tensor result \<Rightarrow> tensor result" where
  "tmul = lift2 (\<lambda>x y. x * y)"

definition tdiv :: "tensor result \<Rightarrow> tensor result \<Rightarrow> tensor result" where
  "tdiv = lift2 (\<lambda>x y. x / y)"

definition tlog :: "tensor result \<Rightarrow> tensor result" where
  "tlog = lift1 ln"

definition tsquare :: "tensor result \<Rightarrow> tensor result" where
  "tsquare = lift1 (\<lambda>x. x\<^sup>2)"

definition tf_reduce_sum :: "tensor \<Rightarrow> real" where
  "tf_reduce_sum t = sum_list (vals t)"

text \<open>\<open>tf.reduce_logsumexp\<close> of a Python list of scalars.\<close>

definition tf_reduce_logsumexp :: "real list \<Rightarrow> real" where
  "tf_reduce_logsumexp ls = ln (sum_list (map exp ls))"

text \<open>\<open>tf.matmul\<close> of two matrices: both of rank 2, the inner dimensions equal.\<close>

definition tf_matmul :: "tensor \<Rightarrow> tensor \<Rightarrow> tensor result" where
  "tf_matmul a b =
     (case shape a of
        [n, k] \<Rightarrow>
          (case shape b of
             [k', m] \<Rightarrow>
               if k = k'
               then Inr (Tensor [n, m]
                      (concat (map (\<lambda>i. map (\<lambda>j. sum_list (map (\<lambda>l. vals a ! (i * k + l) * vals b ! (l * m + j)) [0..<k]))
                                              [0..<m])
                                   [0..<n])))
               else Inl shape_error
           | _ \<Rightarrow> Inl shape_error)
      | _ \<Rightarrow> Inl shape_error)"

text \<open>
  \<open>tf.concat(ts, axis=1)\<close>: a list of one tensor is returned as that tensor, whatever its
  rank. Otherwise there is at least one tensor, all are of rank 2 or more and agree on
  every axis but axis 1, and slice \<open>i\<close> along axis 0 of the result is the slices \<open>i\<close> of the
  inputs, one after the other.
\<close>

definition row :: "tensor \<Rightarrow> nat \<Rightarrow> real list" where
  "row t i = take (prod_list (tl (shape t))) (drop (i * prod_list (tl (shape t))) (vals t))"

definition tf_concat1 :: "tensor list \<Rightarrow> tensor result" where
  "tf_concat1 ts =
     (case ts of
        [] \<Rightarrow> Inl shape_error
      | [t] \<Rightarrow> Inr t
      | t # _ \<Rightarrow>
          if list_all (\<lambda>u. 2 \<le> length (shape u) \<and> hd (shape u) = hd (shape t)
                            \<and> drop 2 (shape u) = drop 2 (shape t)) ts
          then Inr (Tensor (hd (shape t) # sum_list (map (\<lambda>u. shape u ! 1) ts) # drop 2 (shape t))
                           (concat (map (\<lambda>i. concat (map (\<lambda>u. row u i) ts)) [0..<hd (shape t)])))
          else Inl shape_error)"

subsection \<open>The state a build function runs in\<close>

text \<open>
  The TensorFlow graph keeps the variables created so far; \<open>tf.random_normal\<close> and
  \<open>tf.multinomial\<close> read the streams \<open>tf_normal\<close> and \<open>tf_choice\<close> from position
  \<open>tf_used\<close> on. numpy's global generator is the streams \<open>np_normal\<close> and \<open>np_chisq\<close>
  (one stream for each number of degrees of freedom), read from \<open>np_used\<close> on. No theorem
  assumes anything about the numbers in the streams.
\<close>

record world =
  variables :: "tensor list"
  tf_normal :: "nat \<Rightarrow> real"
  tf_choice :: "nat \<Rightarrow> nat"
  tf_used :: nat
  np_normal :: "nat \<Rightarrow> real"
  np_chisq :: "real \<Rightarrow> nat \<Rightarrow> real"
  np_used :: nat

definition tf_Variable :: "tensor \<Rightarrow> world \<Rightarrow> tensor \<times> world" where
  "tf_Variable init w = (init, w\<lparr>variables := variables w @ [init]\<rparr>)"

definition tf_random_normal :: "nat list \<Rightarrow> world \<Rightarrow> tensor \<times> world" where
  "tf_random_normal dims w =
     (Tensor dims (map (\<lambda>i. tf_normal w (tf_used w + i)) [0..<prod_list dims]),
      w\<lparr>tf_used := tf_used w + prod_list dims\<rparr>)"

definition np_random_randn :: "nat list \<Rightarrow> world \<Rightarrow> tensor \<times> world" where
  "np_random_randn dims w =
     (Tensor dims (map (\<lambda>i. np_normal w (np_used w + i)) [0..<prod_list dims]),
      w\<lparr>np_used := np_used w + prod_list dims\<rparr>)"

text \<open>numpy rejects a number of degrees of freedom that is not positive.\<close>

definition np_random_chisquare :: "real \<Rightarrow> nat list \<Rightarrow> world \<Rightarrow> tensor result \<times> world" where
  "np_random_chisquare df sz w =
     (if df \<le> 0 then (Inl (ValueError ''df <= 0''), w)
      else (Inr (Tensor sz (map (\<lambda>i. np_chisq w df (np_used w + i)) [0..<prod_list sz])),
            w\<lparr>np_used := np_used w + prod_list sz\<rparr>))"

subsection \<open>Layers\<close>

text \<open>
  A build function takes its input and the state, and returns the outputs with the scalar
  KL contribution, or the exception raised, together with the state it leaves.
\<close>

type_synonym ('x, 'y) layer = "'x \<Rightarrow> world \<Rightarrow> ('y \<times> real) result \<times> world"

definition eye :: "('x, 'x) layer" where
  "eye = (\<lambda>X w. (Inr (X, 0), w))"

definition activation :: "('a \<Rightarrow> 'b result) \<Rightarrow> ('a list, 'b list) layer" where
  "activation h = (\<lambda>X w.
     (case collect h X of Inl e \<Rightarrow> Inl e | Inr Phi \<Rightarrow> Inr (Phi, 0), w))"

text \<open>The default argument \<open>lambda X: X\<close> of activation.\<close>

definition activation_default :: "('a list, 'a list) layer" where
  "activation_default = activation Inr"

definition fork :: "int \<Rightarrow> ('x, 'x list) layer" where
  "fork replicas = (\<lambda>X w. (Inr (replicate (nat replicas) X, 0), w))"

text \<open>\<open>map(lambda p, X: p(X), layers, Xs)\<close>, consumed from left to right by \<open>zip(*...)\<close>.\<close>

fun call_layers :: "('x, 'y) layer list \<Rightarrow> 'x list \<Rightarrow> world \<Rightarrow> ('y \<times> real) list result \<times> world" where
  "call_layers (p # ps) (X # Xs) w =
     (case p X w of
        (Inl e, w1) \<Rightarrow> (Inl e, w1)
      | (Inr r, w1) \<Rightarrow>
          (case call_layers ps Xs w1 of
             (Inl e, w2) \<Rightarrow> (Inl e, w2)
           | (Inr rs, w2) \<Rightarrow> (Inr (r # rs), w2)))"
| "call_layers _ _ w = (Inr [], w)"

text \<open>
  \<open>Phis, KLs = zip(*pairs)\<close> unpacks two tuples when there is at least one pair, and fails
  to unpack when there is none.
\<close>

definition lmap :: "('x, 'y) layer list \<Rightarrow> ('x list, 'y list) layer" where
  "lmap layers = (\<lambda>Xs w.
     if length Xs \<noteq> length layers
     then (Inl (ValueError ''Number of layers and inputs not the same!''), w)
     else (case call_layers layers Xs w of
             (Inl e, w1) \<Rightarrow> (Inl e, w1)
           | (Inr rs, w1) \<Rightarrow>
               (case rs of
                  [] \<Rightarrow> (Inl (ValueError ''not enough values to unpack (expected 2, got 0)''), w1)
                | _ # _ \<Rightarrow> (Inr (map fst rs, sum_list (map snd rs)), w1))))"

definition cat :: "(tensor list list, tensor list) layer" where
  "cat = (\<lambda>Xs w.
     (case collect tf_concat1 Xs of Inl e \<Rightarrow> Inl e | Inr Phi \<Rightarrow> Inr (Phi, 0), w))"

text \<open>\<open>_input_dim\<close>: \<open>int(X[0].get_shape()[1])\<close>.\<close>

definition input_dim :: "tensor list \<Rightarrow> nat result" where
  "input_dim X =
     (case X of
        [] \<Rightarrow> Inl (IndexError ''list index out of range'')
      | x # _ \<Rightarrow>
          (case shape x of
             _ # d # _ \<Rightarrow> Inr d
           | _ \<Rightarrow> Inl (IndexError ''list index out of range'')))"

subsection \<open>Random Fourier kernels\<close>

datatype kernel = RBF real | Matern int real

text \<open>
  \<open>df = 2 * (self.p + 0.5)\<close>, with \<open>p\<close> a Python integer. Python first converts \<open>p\<close> to a
  double: the magnitude is rounded to 53 significant bits, a tie going to the even
  neighbour, and the conversion raises OverflowError when the rounded magnitude reaches
  \<open>2 ^ 1024\<close>. With \<open>f\<close> the converted integer, \<open>f + 0.5\<close> is \<open>(2 * f + 1) / 2\<close>, rounded to
  53 significant bits in the same way, and the doubling is exact: so \<open>df\<close> is \<open>2 * f + 1\<close>
  rounded. A result of \<open>2 ^ 1024\<close> or more is the float \<open>inf\<close>; one of \<open>- 2 ^ 1024\<close> or less
  is \<open>-inf\<close>, which numpy rejects like every other negative number. In \<open>round53\<close>,
  \<open>floorlog 2 m\<close> is the number of bits of \<open>m\<close>.
\<close>

definition round53 :: "nat \<Rightarrow> nat" where
  "round53 m =
     (let k = floorlog 2 m - 53; q = m div 2 ^ k; r = m mod 2 ^ k
      in if 2 * r < 2 ^ k \<or> (2 * r = 2 ^ k \<and> even q) then q * 2 ^ k else (q + 1) * 2 ^ k)"

definition Matern_df :: "int \<Rightarrow> real result" where
  "Matern_df p =
     (let f = sgn p * int (round53 (nat \<bar>p\<bar>)) in
      if 2 ^ 1024 \<le> \<bar>f\<bar> then Inl (OverflowError ''int too large to convert to float'')
      else (let t = 2 * f + 1; df = sgn t * int (round53 (nat \<bar>t\<bar>)) in
            if 2 ^ 1024 \<le> df then Inl (NonFinite ''df is inf'') else Inr (real_of_int df)))"

definition RBF_weights :: "real \<Rightarrow> nat \<Rightarrow> nat \<Rightarrow> world \<Rightarrow> tensor result \<times> world" where
  "RBF_weights lenscale d n_features w =
     (case np_random_randn [d, n_features] w of
        (P, w1) \<Rightarrow> (Inr (tmap (\<lambda>v. v / lenscale) P), w1))"

definition Matern_weights :: "int \<Rightarrow> real \<Rightarrow> nat \<Rightarrow> nat \<Rightarrow> world \<Rightarrow> tensor result \<times> world" where
  "Matern_weights p lenscale d n_features w =
     (case Matern_df p of
        Inl e \<Rightarrow> (Inl e, w)
      | Inr df \<Rightarrow>
          (case np_random_randn [d, n_features] w of
             (y, w1) \<Rightarrow>
               (case np_random_chisquare df [n_features] w1 of
                  (Inl e, w2) \<Rightarrow> (Inl e, w2)
                | (Inr u, w2) \<Rightarrow>
                    (lift1 (\<lambda>v. v / lenscale) (tmul (Inr y) (Inr (tmap sqrt (tmap (\<lambda>v. df / v) u)))), w2))))"

fun weights :: "kernel \<Rightarrow> nat \<Rightarrow> nat \<Rightarrow> world \<Rightarrow> tensor result \<times> world" where
  "weights (RBF lenscale) = RBF_weights lenscale"
| "weights (Matern p lenscale) = Matern_weights p lenscale"

definition phi :: "nat \<Rightarrow> tensor \<Rightarrow> tensor \<Rightarrow> tensor result" where
  "phi n_features P x =
     (case tf_matmul x P of
        Inl e \<Rightarrow> Inl e
      | Inr XP \<Rightarrow>
          lift1 (\<lambda>v. v / sqrt (real n_features)) (tf_concat1 [tmap cos XP, tmap sin XP]))"

definition randomFourier :: "nat \<Rightarrow> kernel option \<Rightarrow> (tensor list, tensor list) layer" where
  "randomFourier n_features kern = (\<lambda>X w.
     (let kernel' = (case kern of Some k \<Rightarrow> k | None \<Rightarrow> RBF 1) in
      case input_dim X of
        Inl e \<Rightarrow> (Inl e, w)
      | Inr d \<Rightarrow>
          (case weights kernel' d n_features w of
             (Inl e, w1) \<Rightarrow> (Inl e, w1)
           | (Inr P, w1) \<Rightarrow>
               (case collect (phi n_features P) X of
                  Inl e \<Rightarrow> (Inl e, w1)
                | Inr Phi \<Rightarrow> (Inr (Phi, 0), w1)))))"

subsection \<open>Distributions\<close>

text \<open>
  The positivity transform \<open>pos\<close> of \<open>aboleth.util\<close> is a parameter of everything that uses
  it; it is applied entry by entry.
\<close>

record normal =
  mu :: tensor
  var :: tensor
  sigma :: tensor

definition Normal_init :: "tensor \<Rightarrow> tensor \<Rightarrow> normal" where
  "Normal_init m v = \<lparr>mu = m, var = v, sigma = tmap sqrt v\<rparr>"

definition Normal_sample :: "normal \<Rightarrow> world \<Rightarrow> tensor result \<times> world" where
  "Normal_sample self w =
     (case tf_random_normal (shape (mu self)) w of
        (e, w1) \<Rightarrow> (tadd (Inr (mu self)) (tmul (Inr e) (Inr (sigma self))), w1))"

definition Normal_KL :: "normal \<Rightarrow> normal \<Rightarrow> tensor result" where
  "Normal_KL self p =
     lift1 (\<lambda>x. 0.5 * x)
       (tadd
          (lift1 (\<lambda>x. x - 1)
             (tadd (tsub (tlog (Inr (var p))) (tlog (Inr (var self))))
                   (tdiv (Inr (var self)) (Inr (var p)))))
          (tdiv (tsquare (tsub (Inr (mu self)) (Inr (mu p)))) (Inr (var p))))"

definition NormPrior :: "(real \<Rightarrow> real) \<Rightarrow> nat list \<Rightarrow> real \<Rightarrow> bool \<Rightarrow> world \<Rightarrow> normal \<times> world" where
  "NormPrior pos dims v learn_var w =
     (if learn_var
      then (case tf_Variable (scalar v) w of
              (x, w1) \<Rightarrow> (Normal_init (tf_zeros dims) (tmap pos x), w1))
      else (Normal_init (tf_zeros dims) (scalar v), w))"

definition NormPosterior :: "(real \<Rightarrow> real) \<Rightarrow> nat list \<Rightarrow> real \<Rightarrow> world \<Rightarrow> normal \<times> world" where
  "NormPosterior pos dims prior_var w =
     (case tf_random_normal dims w of
        (e1, w1) \<Rightarrow>
          (case tf_Variable (tmap (\<lambda>x. sqrt prior_var * x) e1) w1 of
             (m, w2) \<Rightarrow>
               (case tf_random_normal dims w2 of
                  (e2, w3) \<Rightarrow>
                    (case tf_Variable (tmap (\<lambda>x. prior_var * x) e2) w3 of
                       (v, w4) \<Rightarrow> (Normal_init m (tmap pos v), w4)))))"

record mixture =
  comps :: "normal list"
  mixK :: int

text \<open>\<open>[_NormPosterior(dim, prior_var) for _ in range(K)]\<close>.\<close>

fun make_comps :: "(real \<Rightarrow> real) \<Rightarrow> nat list \<Rightarrow> real \<Rightarrow> nat \<Rightarrow> world \<Rightarrow> normal list \<times> world" where
  "make_comps pos dims prior_var 0 w = ([], w)"
| "make_comps pos dims prior_var (Suc n) w =
     (case NormPosterior pos dims prior_var w of
        (q, w1) \<Rightarrow>
          (case make_comps pos dims prior_var n w1 of
             (qs, w2) \<Rightarrow> (q # qs, w2)))"

definition MixPosterior :: "(real \<Rightarrow> real) \<Rightarrow> nat list \<Rightarrow> real \<Rightarrow> int \<Rightarrow> world \<Rightarrow> mixture \<times> world" where
  "MixPosterior pos dims prior_var K w =
     (case make_comps pos dims prior_var (nat K) w of
        (cs, w1) \<Rightarrow> (\<lparr>comps = cs, mixK = K\<rparr>, w1))"

text \<open>
  The loop of \<open>_MixPosterior.sample\<close>. Both branches of \<open>tf.cond\<close> are constructed, so a
  component whose sample cannot be built raises whether it is selected or not; only the
  selected component draws noise when the graph runs.
\<close>

fun mix_sample_loop :: "nat \<Rightarrow> nat \<Rightarrow> tensor \<Rightarrow> tensor \<Rightarrow> normal list \<Rightarrow> world \<Rightarrow> tensor result \<times> world" where
  "mix_sample_loop k i z s [] w = (Inr s, w)"
| "mix_sample_loop k i z s (qk # qs) w =
     (case Normal_sample qk w of
        (Inl e, _) \<Rightarrow> (Inl e, w)
      | (Inr x, w1) \<Rightarrow>
          (case broadcast (\<lambda>a b. a + b) s (if k = i then x else z) of
             Inl e \<Rightarrow> (Inl e, if k = i then w1 else w)
           | Inr s' \<Rightarrow> mix_sample_loop k (Suc i) z s' qs (if k = i then w1 else w)))"

definition MixPosterior_sample :: "mixture \<Rightarrow> world \<Rightarrow> tensor result \<times> world" where
  "MixPosterior_sample self w =
     (if mixK self = 0 then (Inl (ZeroDivisionError ''float division by zero''), w)
      else (case comps self of
              [] \<Rightarrow> (Inl (IndexError ''list index out of range''), w)
            | c # _ \<Rightarrow>
                mix_sample_loop (tf_choice w (tf_used w) mod nat (mixK self)) 0
                  (tf_zeros (shape (mu c))) (tf_zeros (shape (mu c))) (comps self)
                  (w\<lparr>tf_used := tf_used w + 1\<rparr>)))"

definition log_norm :: "tensor \<Rightarrow> tensor \<Rightarrow> tensor \<Rightarrow> real result" where
  "log_norm x m v =
     bindE (tadd (tlog (lift1 (\<lambda>u. 2 * u * pi) (Inr v)))
                 (tdiv (tsquare (tsub (Inr x) (Inr m))) (Inr v)))
       (\<lambda>t. Inr (- 0.5 * tf_reduce_sum t))"

text \<open>One entry of the list \<open>lq\<close>, one pass of the loop, and the loop of \<open>_MixPosterior.KL\<close>.\<close>

definition mix_lq :: "mixture \<Rightarrow> normal \<Rightarrow> normal \<Rightarrow> real result" where
  "mix_lq self qk qj =
     bindE (tadd (Inr (var qk)) (Inr (var qj)))
       (\<lambda>v. bindE (log_norm (mu qk) (mu qj) v)
          (\<lambda>l. Inr (l - real_of_int (mixK self))))"

definition mix_term :: "mixture \<Rightarrow> normal \<Rightarrow> normal \<Rightarrow> real result" where
  "mix_term self p qk =
     bindE (log_norm (mu qk) (mu p) (var p))
       (\<lambda>lp. bindE (tdiv (Inr (var qk)) (Inr (var p)))
          (\<lambda>r. bindE (collect (mix_lq self qk) (comps self))
             (\<lambda>lq. Inr ((tf_reduce_sum r / 2 - lp + tf_reduce_logsumexp lq)
                          / real_of_int (mixK self)))))"

fun mix_KL_loop :: "mixture \<Rightarrow> normal \<Rightarrow> real \<Rightarrow> normal list \<Rightarrow> real result" where
  "mix_KL_loop self p KL [] = Inr KL"
| "mix_KL_loop self p KL (qk # qs) =
     bindE (mix_term self p qk) (\<lambda>t. mix_KL_loop self p (KL + t) qs)"

definition MixPosterior_KL :: "mixture \<Rightarrow> normal \<Rightarrow> real result" where
  "MixPosterior_KL self p = mix_KL_loop self p 0 (comps self)"

text \<open>
  The bound as the specification words it: the same computation, with \<open>log(K)\<close> taken
  from every overlap log-density.
\<close>

definition mix_lq_spec :: "mixture \<Rightarrow> normal \<Rightarrow> normal \<Rightarrow> real result" where
  "mix_lq_spec self qk qj =
     bindE (tadd (Inr (var qk)) (Inr (var qj)))
       (\<lambda>v. bindE (log_norm (mu qk) (mu qj) v)
          (\<lambda>l. Inr (l - ln (real_of_int (mixK self)))))"

definition mix_term_spec :: "mixture \<Rightarrow> normal \<Rightarrow> normal \<Rightarrow> real result" where
  "mix_term_spec self p qk =
     bindE (log_norm (mu qk) (mu p) (var p))
       (\<lambda>lp. bindE (tdiv (Inr (var qk)) (Inr (var p)))
          (\<lambda>r. bindE (collect (mix_lq_spec self qk) (comps self))
             (\<lambda>lq. Inr ((tf_reduce_sum r / 2 - lp + tf_reduce_logsumexp lq)
                          / real_of_int (mixK self)))))"

fun mix_KL_loop_spec :: "mixture \<Rightarrow> normal \<Rightarrow> real \<Rightarrow> normal list \<Rightarrow> real result" where
  "mix_KL_loop_spec self p KL [] = Inr KL"
| "mix_KL_loop_spec self p KL (qk # qs) =
     bindE (mix_term_spec self p qk) (\<lambda>t. mix_KL_loop_spec self p (KL + t) qs)"

definition MixPosterior_KL_spec :: "mixture \<Rightarrow> normal \<Rightarrow> real result" where
  "MixPosterior_KL_spec self p = mix_KL_loop_spec self p 0 (comps self)"

subsection \<open>The variational dense layer\<close>

text \<open>The posterior of a dense layer is a normal or a mixture; its methods dispatch on that.\<close>

datatype posterior = Norm normal | Mix mixture

fun posterior_sample :: "posterior \<Rightarrow> world \<Rightarrow> tensor result \<times> world" where
  "posterior_sample (Norm q) = Normal_sample q"
| "posterior_sample (Mix q) = MixPosterior_sample q"

fun posterior_KL :: "posterior \<Rightarrow> normal \<Rightarrow> tensor result" where
  "posterior_KL (Norm q) p = Normal_KL q p"
| "posterior_KL (Mix q) p = bindE (MixPosterior_KL q p) (\<lambda>x. Inr (scalar x))"

text \<open>The blocks "Layer priors" and "Layer Posterior samples" of \<open>build_dense\<close>.\<close>

definition dense_params ::
  "(real \<Rightarrow> real) \<Rightarrow> nat \<Rightarrow> real \<Rightarrow> bool \<Rightarrow> int \<Rightarrow> nat \<Rightarrow> world
     \<Rightarrow> (normal \<times> normal \<times> posterior \<times> posterior) \<times> world" where
  "dense_params pos output_dim reg learn_prior mixtures d w =
     (case NormPrior pos [d, output_dim] reg learn_prior w of
        (pW, w1) \<Rightarrow>
          (case NormPrior pos [output_dim] reg learn_prior w1 of
             (pb, w2) \<Rightarrow>
               if mixtures > 1
               then (case MixPosterior pos [d, output_dim] reg mixtures w2 of
                       (qW, w3) \<Rightarrow>
                         (case MixPosterior pos [output_dim] reg mixtures w3 of
                            (qb, w4) \<Rightarrow> ((pW, pb, Mix qW, Mix qb), w4)))
               else (case NormPosterior pos [d, output_dim] reg w2 of
                       (qW, w3) \<Rightarrow>
                         (case NormPosterior pos [output_dim] reg w3 of
                            (qb, w4) \<Rightarrow> ((pW, pb, Norm qW, Norm qb), w4)))))"

text \<open>\<open>[tf.matmul(x, qW.sample()) + qb.sample() for x in X]\<close>.\<close>

fun dense_outputs :: "posterior \<Rightarrow> posterior \<Rightarrow> tensor list \<Rightarrow> world \<Rightarrow> tensor list result \<times> world" where
  "dense_outputs qW qb [] w = (Inr [], w)"
| "dense_outputs qW qb (x # X) w =
     (case posterior_sample qW w of
        (Inl e, w1) \<Rightarrow> (Inl e, w1)
      | (Inr W, w1) \<Rightarrow>
          (case tf_matmul x W of
             Inl e \<Rightarrow> (Inl e, w1)
           | Inr xW \<Rightarrow>
               (case posterior_sample qb w1 of
                  (Inl e, w2) \<Rightarrow> (Inl e, w2)
                | (Inr b, w2) \<Rightarrow>
                    (case broadcast (\<lambda>a b. a + b) xW b of
                       Inl e \<Rightarrow> (Inl e, w2)
                     | Inr y \<Rightarrow>
                         (case dense_outputs qW qb X w2 of
                            (Inl e, w3) \<Rightarrow> (Inl e, w3)
                          | (Inr ys, w3) \<Rightarrow> (Inr (y # ys), w3))))))"

text \<open>\<open>tf.reduce_sum(qW.KL(pW)) + tf.reduce_sum(qb.KL(pb))\<close>.\<close>

definition dense_KL :: "normal \<times> normal \<times> posterior \<times> posterior \<Rightarrow> real result" where
  "dense_KL ds =
     (case ds of
        (pW, pb, qW, qb) \<Rightarrow>
          bindE (posterior_KL qW pW)
            (\<lambda>kW. bindE (posterior_KL qb pb)
               (\<lambda>kb. Inr (tf_reduce_sum kW + tf_reduce_sum kb))))"

definition dense_var ::
  "(real \<Rightarrow> real) \<Rightarrow> nat \<Rightarrow> real \<Rightarrow> bool \<Rightarrow> int \<Rightarrow> (tensor list, tensor list) layer" where
  "dense_var pos output_dim reg learn_prior mixtures = (\<lambda>X w.
     case input_dim X of
       Inl e \<Rightarrow> (Inl e, w)
     | Inr d \<Rightarrow>
         (case dense_params pos output_dim reg learn_prior mixtures d w of
            ((pW, pb, qW, qb), w4) \<Rightarrow>
              (case dense_outputs qW qb X w4 of
                 (Inl e, w5) \<Rightarrow> (Inl e, w5)
               | (Inr Phi, w5) \<Rightarrow>
                   (case dense_KL (pW, pb, qW, qb) of
                      Inl e \<Rightarrow> (Inl e, w5)
                    | Inr KL \<Rightarrow> (Inr (Phi, KL), w5)))))"

subsection \<open>Notions used to state the properties\<close>

text \<open>The closed form of the KL divergence between two univariate Gaussians, as the specification gives it.\<close>

definition KL_formula :: "real \<Rightarrow> real \<Rightarrow> real \<Rightarrow> real \<Rightarrow> real" where
  "KL_formula qmu qvar pmu pvar =
     0.5 * (ln pvar - ln qvar + qvar / pvar - 1 + (qmu - pmu)\<^sup>2 / pvar)"

definition positive :: "tensor \<Rightarrow> bool" where
  "positive t = list_all (\<lambda>x. 0 < x) (vals t)"

fun positive_posterior :: "posterior \<Rightarrow> bool" where
  "positive_posterior (Norm q) = positive (var q)"
| "positive_posterior (Mix m) = list_all (\<lambda>q. positive (var q)) (comps m)"

text \<open>
  \<open>chain layers Xs ws rs\<close>: layer \<open>i\<close>, run on input \<open>i\<close> in state \<open>ws ! i\<close>, returns
  \<open>rs ! i\<close> and leaves the state \<open>ws ! (i + 1)\<close>.
\<close>

fun chain :: "('x, 'y) layer list \<Rightarrow> 'x list \<Rightarrow> world list \<Rightarrow> ('y \<times> real) list \<Rightarrow> bool" where
  "chain [] [] [w] [] = True"
| "chain (p # ps) (X # Xs) (w # w1 # ws) (r # rs) = (p X w = (Inr r, w1) \<and> chain ps Xs (w1 # ws) rs)"
| "chain _ _ _ _ = False"

text \<open>A state to run examples in: no variables yet, and fixed streams.\<close>

definition example_world :: world where
  "example_world =
     \<lparr>variables = [], tf_normal = (\<lambda>i. if i = 6 then 1 else 0), tf_choice = (\<lambda>i. 0), tf_used = 0,
      np_normal = (\<lambda>i. real i), np_chisq = (\<lambda>df i. 1), np_used = 0\<rparr>"

text \<open>
  \<open>routed pos w t\<close>: the tensor \<open>t\<close> is the positivity transform of one of the variables of
  the graph.
\<close>

definition routed :: "(real \<Rightarrow> real) \<Rightarrow> world \<Rightarrow> tensor \<Rightarrow> bool" where
  "routed pos w t = list_ex (\<lambda>raw. t = tmap pos raw) (variables w)"

fun routed_posterior :: "(real \<Rightarrow> real) \<Rightarrow> world \<Rightarrow> posterior \<Rightarrow> bool" where
  "routed_posterior pos w (Norm q) = routed pos w (var q)"
| "routed_posterior pos w (Mix m) = list_all (\<lambda>q. routed pos w (var q)) (comps m)"


text \<open>
  A mixture of two components and a prior, as the constructors of layer.py make them in the
  example state, with \<open>exp\<close> for the positivity transform: both components have mean 0 and
  variance 1, and the prior has mean 0 and variance 1.
\<close>

definition example_mixture :: mixture where
  "example_mixture = fst (MixPosterior exp [1] 1 2 example_world)"

definition example_prior :: normal where
  "example_prior = fst (NormPrior exp [1] 1 False example_world)"

text \<open>
  The random Fourier features of a matrix \<open>x\<close> under a projection \<open>P\<close>, written out entry by
  entry: \<open>dot x P i j\<close> is entry \<open>(i, j)\<close> of the product \<open>xP\<close>, and row \<open>i\<close> of the features
  is the cosines of row \<open>i\<close> of \<open>xP\<close> followed by its sines, all divided by
  \<open>sqrt(n_features)\<close>.
\<close>

definition dot :: "tensor \<Rightarrow> tensor \<Rightarrow> nat \<Rightarrow> nat \<Rightarrow> real" where
  "dot x P i j =
     sum_list (map (\<lambda>l. vals x ! (i * (shape x ! 1) + l) * vals P ! (l * (shape P ! 1) + j))
                   [0..<shape x ! 1])"

definition fourier_row :: "nat \<Rightarrow> tensor \<Rightarrow> tensor \<Rightarrow> nat \<Rightarrow> real list" where
  "fourier_row n P x i =
     map (\<lambda>j. cos (dot x P i j) / sqrt (real n)) [0..<n]
     @ map (\<lambda>j. sin (dot x P i j) / sqrt (real n)) [0..<n]"

definition fourier_features :: "nat \<Rightarrow> tensor \<Rightarrow> tensor \<Rightarrow> tensor" where
  "fourier_features n P x =
     Tensor [shape x ! 0, n + n] (concat (map (fourier_row n P x) [0..<shape x ! 0]))"

subsection \<open>Identity and activation\<close>

lemma collect_Inr: "collect Inr X = Inr X"
  by (induction X) simp_all

text \<open>
  C10. The build function of \<open>activation()\<close> with its default argument equals the one of
  \<open>eye()\<close>: on every input list and in every state both return the list itself, with KL
  contribution 0, and leave the state as it was.
\<close>

theorem activation_default_is_eye:
  "activation_default = (eye :: ('a list, 'a list) layer)
   \<and> (eye :: ('a list, 'a list) layer) X w = (Inr (X, 0), w)"
  by (simp add: activation_default_def activation_def eye_def collect_Inr)


subsection \<open>Broadcasting on tabulated tensors\<close>

lemma is_suffix_refl: "is_suffix s s"
  by (simp add: is_suffix_def)

lemma is_suffix_Nil: "is_suffix [] s"
  by (simp add: is_suffix_def)

lemma is_suffix_antisym: "is_suffix s t \<Longrightarrow> is_suffix t s \<Longrightarrow> s = t"
  by (auto simp: is_suffix_def)

lemma is_suffix_prod: "is_suffix t s \<Longrightarrow> prod_list s = prod_list (take (length s - length t) s) * prod_list t"
proof -
  assume a: "is_suffix t s"
  have "s = take (length s - length t) s @ drop (length s - length t) s" by simp
  then have "prod_list s = prod_list (take (length s - length t) s) * prod_list (drop (length s - length t) s)"
    by (metis prod_list.append)
  with a show ?thesis by (simp add: is_suffix_def)
qed

lemma is_suffix_prod_pos: "is_suffix t s \<Longrightarrow> 0 < prod_list s \<Longrightarrow> 0 < prod_list t"
  using is_suffix_prod [of t s] by (cases "prod_list t = 0") auto

lemma elem_tab: "i < prod_list s \<Longrightarrow> elem (Tensor s (map g [0..<prod_list s])) i = g i"
  by (simp add: elem_def)

lemma elem_tab_mod:
  "0 < prod_list s \<Longrightarrow> elem (Tensor s (map g [0..<prod_list s])) i = g (i mod prod_list s)"
  by (simp add: elem_def)

lemma tensor_as_tab:
  "well_shaped t \<Longrightarrow> t = Tensor (shape t) (map (elem t) [0..<prod_list (shape t)])"
proof -
  assume ws: "well_shaped t"
  have "map (elem t) [0..<length (vals t)] = map (\<lambda>i. vals t ! i) [0..<length (vals t)]"
    by (rule map_cong) (simp_all add: elem_def)
  also have "\<dots> = vals t" by (rule map_nth)
  finally have "vals t = map (elem t) [0..<prod_list (shape t)]"
    using ws by (simp add: well_shaped_def)
  then show ?thesis by (metis tensor.collapse)
qed

lemma tmap_tab: "tmap f (Tensor s (map g [0..<n])) = Tensor s (map (\<lambda>i. f (g i)) [0..<n])"
  by (simp add: tmap_def o_def)

lemma broadcast_tab_right:
  assumes "is_suffix t s"
  shows "broadcast f (Tensor s (map g [0..<prod_list s])) (Tensor t (map h [0..<prod_list t]))
         = Inr (Tensor s (map (\<lambda>i. f (g i) (h (i mod prod_list t))) [0..<prod_list s]))"
proof -
  have "map (\<lambda>i. f (elem (Tensor s (map g [0..<prod_list s])) i) (elem (Tensor t (map h [0..<prod_list t])) i)) [0..<prod_list s]
        = map (\<lambda>i. f (g i) (h (i mod prod_list t))) [0..<prod_list s]"
  proof (rule map_cong [OF refl])
    fix i assume "i \<in> set [0..<prod_list s]"
    then have i: "i < prod_list s" by simp
    then have "0 < prod_list t" using is_suffix_prod_pos [OF assms] by simp
    then show "f (elem (Tensor s (map g [0..<prod_list s])) i) (elem (Tensor t (map h [0..<prod_list t])) i)
               = f (g i) (h (i mod prod_list t))"
      using i by (simp add: elem_tab elem_tab_mod)
  qed
  then show ?thesis using assms by (simp add: broadcast_def)
qed

lemma broadcast_tab_left:
  assumes "is_suffix s t"
  shows "broadcast f (Tensor s (map g [0..<prod_list s])) (Tensor t (map h [0..<prod_list t]))
         = Inr (Tensor t (map (\<lambda>i. f (g (i mod prod_list s)) (h i)) [0..<prod_list t]))"
proof (cases "is_suffix t s")
  case True
  then have st: "s = t" using assms by (rule is_suffix_antisym [rotated])
  have "map (\<lambda>i. f (g i) (h (i mod prod_list t))) [0..<prod_list t]
        = map (\<lambda>i. f (g (i mod prod_list t)) (h i)) [0..<prod_list t]"
    by (rule map_cong) simp_all
  then show ?thesis using broadcast_tab_right [OF True, of f g h] st by simp
next
  case False
  have "map (\<lambda>i. f (elem (Tensor s (map g [0..<prod_list s])) i) (elem (Tensor t (map h [0..<prod_list t])) i)) [0..<prod_list t]
        = map (\<lambda>i. f (g (i mod prod_list s)) (h i)) [0..<prod_list t]"
  proof (rule map_cong [OF refl])
    fix i assume "i \<in> set [0..<prod_list t]"
    then have i: "i < prod_list t" by simp
    then have "0 < prod_list s" using is_suffix_prod_pos [OF assms] by simp
    then show "f (elem (Tensor s (map g [0..<prod_list s])) i) (elem (Tensor t (map h [0..<prod_list t])) i)
               = f (g (i mod prod_list s)) (h i)"
      using i by (simp add: elem_tab elem_tab_mod)
  qed
  then show ?thesis using assms False by (simp add: broadcast_def)
qed

subsection \<open>The KL divergence of two normals\<close>

lemma elem_mod: "well_shaped t \<Longrightarrow> elem t (i mod prod_list (shape t)) = elem t i"
  by (simp add: elem_def well_shaped_def)

lemma Normal_KL_tab:
  assumes a: "mu q = Tensor s (map qm [0..<prod_list s])"
    and b: "var q = Tensor s (map qv [0..<prod_list s])"
    and c: "mu p = Tensor s (map pm [0..<prod_list s])"
    and d: "var p = Tensor t (map pv [0..<prod_list t])"
    and st: "is_suffix t s"
  shows "Normal_KL q p =
     Inr (Tensor s
           (map (\<lambda>i. KL_formula (qm i) (qv i) (pm i) (pv (i mod prod_list t)))
                [0..<prod_list s]))"
  unfolding Normal_KL_def
  by (simp add: a b c d lift1_def lift2_def tadd_def tsub_def tdiv_def tlog_def tsquare_def
        tmap_tab broadcast_tab_left [OF st] broadcast_tab_right [OF st]
        broadcast_tab_right [OF is_suffix_refl] KL_formula_def)

lemma Normal_KL_entries:
  assumes wq: "well_shaped (mu q)" "well_shaped (var q)"
    and wp: "well_shaped (mu p)" "well_shaped (var p)"
    and sq: "shape (var q) = shape (mu q)"
    and sp: "shape (mu p) = shape (mu q)"
    and sv: "is_suffix (shape (var p)) (shape (mu q))"
  shows "Normal_KL q p =
     Inr (Tensor (shape (mu q))
           (map (\<lambda>i. KL_formula (elem (mu q) i) (elem (var q) i) (elem (mu p) i) (elem (var p) i))
                [0..<prod_list (shape (mu q))]))"
proof -
  have a: "mu q = Tensor (shape (mu q)) (map (elem (mu q)) [0..<prod_list (shape (mu q))])"
    using tensor_as_tab [OF wq(1)] .
  have b: "var q = Tensor (shape (mu q)) (map (elem (var q)) [0..<prod_list (shape (mu q))])"
    using tensor_as_tab [OF wq(2)] sq by simp
  have c: "mu p = Tensor (shape (mu q)) (map (elem (mu p)) [0..<prod_list (shape (mu q))])"
    using tensor_as_tab [OF wp(1)] sp by simp
  have d: "var p = Tensor (shape (var p)) (map (elem (var p)) [0..<prod_list (shape (var p))])"
    using tensor_as_tab [OF wp(2)] .
  show ?thesis
    using Normal_KL_tab [OF a b c d sv] by (simp add: elem_mod [OF wp(2)])
qed


subsection \<open>The distributions of a dense layer\<close>

lemma tf_random_normal_props:
  "tf_random_normal dims w = (e, w1) \<Longrightarrow>
     shape e = dims \<and> well_shaped e \<and> variables w1 = variables w"
  by (auto simp: tf_random_normal_def well_shaped_def)

lemma NormPosterior_props:
  assumes "NormPosterior pos dims v w = (q, w')"
  shows "shape (mu q) = dims \<and> shape (var q) = dims \<and> well_shaped (mu q) \<and> well_shaped (var q)
         \<and> (\<exists>raw. var q = tmap pos raw \<and> variables w' = variables w @ [mu q, raw])"
  using assms
  by (auto simp: NormPosterior_def tf_random_normal_def tf_Variable_def Normal_init_def tmap_def
      well_shaped_def)

lemma NormPrior_props:
  assumes "NormPrior pos dims v l w = (p, w')"
  shows "mu p = tf_zeros dims \<and> var p = (if l then tmap pos (scalar v) else scalar v)
         \<and> variables w' = (if l then variables w @ [scalar v] else variables w)"
  using assms
  by (auto simp: NormPrior_def tf_Variable_def Normal_init_def split: if_splits)

lemma well_shaped_zeros: "well_shaped (tf_zeros dims)" "shape (tf_zeros dims) = dims"
  by (simp_all add: tf_zeros_def well_shaped_def)

lemma well_shaped_scalar: "well_shaped (scalar c)" "shape (scalar c) = []"
  "well_shaped (tmap f (scalar c))" "shape (tmap f (scalar c)) = []"
  by (simp_all add: scalar_def well_shaped_def tmap_def)

lemma Normal_KL_prior:
  assumes q: "NormPosterior pos dims v w = (q, w')"
    and p: "NormPrior pos dims v' l w0 = (p, w0')"
  shows "Normal_KL q p =
     Inr (Tensor dims
           (map (\<lambda>i. KL_formula (elem (mu q) i) (elem (var q) i) (elem (mu p) i) (elem (var p) i))
                [0..<prod_list dims]))"
proof -
  note Q = NormPosterior_props [OF q]
  note P = NormPrior_props [OF p]
  have "Normal_KL q p =
     Inr (Tensor (shape (mu q))
           (map (\<lambda>i. KL_formula (elem (mu q) i) (elem (var q) i) (elem (mu p) i) (elem (var p) i))
                [0..<prod_list (shape (mu q))]))"
    by (rule Normal_KL_entries)
      (use Q P in \<open>simp_all add: well_shaped_zeros well_shaped_scalar is_suffix_Nil\<close>)
  then show ?thesis using Q by simp
qed

lemma dense_params_normal:
  assumes "mixtures \<le> 1"
    and "dense_params pos od reg lp mixtures d w = ((pW, pb, qW, qb), w4)"
  shows "\<exists>nW nb w1 w2 w3. qW = Norm nW \<and> qb = Norm nb
           \<and> NormPrior pos [d, od] reg lp w = (pW, w1) \<and> NormPrior pos [od] reg lp w1 = (pb, w2)
           \<and> NormPosterior pos [d, od] reg w2 = (nW, w3) \<and> NormPosterior pos [od] reg w3 = (nb, w4)"
  using assms by (auto simp: dense_params_def split: prod.splits)

lemma dense_var_KL_normal:
  assumes m: "mixtures \<le> 1"
    and run: "dense_var pos od reg lp mixtures X w = (Inr (Phi, KL), w')"
  shows "\<exists>d pW pb qW qb w4. input_dim X = Inr d
           \<and> dense_params pos od reg lp mixtures d w = ((pW, pb, Norm qW, Norm qb), w4)
           \<and> KL = sum_list (map (\<lambda>i. KL_formula (elem (mu qW) i) (elem (var qW) i)
                                           (elem (mu pW) i) (elem (var pW) i)) [0..<d * od])
                + sum_list (map (\<lambda>i. KL_formula (elem (mu qb) i) (elem (var qb) i)
                                           (elem (mu pb) i) (elem (var pb) i)) [0..<od])"
proof -
  from run obtain d where d: "input_dim X = Inr d"
    by (auto simp: dense_var_def split: sum.splits)
  obtain pW pb qW qb w4 where dp: "dense_params pos od reg lp mixtures d w = ((pW, pb, qW, qb), w4)"
    by (cases "dense_params pos od reg lp mixtures d w") auto
  from dense_params_normal [OF m dp] obtain nW nb w1 w2 w3 where
    n: "qW = Norm nW" "qb = Norm nb"
    and pr: "NormPrior pos [d, od] reg lp w = (pW, w1)" "NormPrior pos [od] reg lp w1 = (pb, w2)"
    and po: "NormPosterior pos [d, od] reg w2 = (nW, w3)" "NormPosterior pos [od] reg w3 = (nb, w4)"
    by blast
  have kl: "dense_KL (pW, pb, Norm nW, Norm nb) = Inr KL"
    using run d dp n by (auto simp: dense_var_def split: sum.splits prod.splits)
  have "KL = sum_list (map (\<lambda>i. KL_formula (elem (mu nW) i) (elem (var nW) i)
                                           (elem (mu pW) i) (elem (var pW) i)) [0..<d * od])
                + sum_list (map (\<lambda>i. KL_formula (elem (mu nb) i) (elem (var nb) i)
                                           (elem (mu pb) i) (elem (var pb) i)) [0..<od])"
    using kl
    by (simp add: dense_KL_def bindE_def Normal_KL_prior [OF po(1) pr(1)]
        Normal_KL_prior [OF po(2) pr(2)] tf_reduce_sum_def)
  then show ?thesis using d dp n by blast
qed


subsection \<open>The closed form\<close>

text \<open>The equations that evaluate a run of \<open>dense_var\<close> with a normal posterior.\<close>

lemmas run_dense = dense_var_def input_dim_def dense_params_def NormPrior_def NormPosterior_def
  tf_random_normal_def tf_Variable_def Normal_init_def tmap_def tf_zeros_def scalar_def
  Normal_sample_def tadd_def tmul_def lift2_def lift1_def broadcast_def is_suffix_def elem_def
  tf_matmul_def dense_KL_def Normal_KL_def tsub_def tdiv_def tlog_def tsquare_def tf_reduce_sum_def
  bindE_def

text \<open>
  C5. For normals \<open>q\<close> and \<open>p\<close> of matching shape (the variance of \<open>p\<close> may also be a scalar,
  or any shape that broadcasts by tiling, as the prior of \<open>dense_var\<close> is), entry \<open>i\<close> of
  \<open>_Normal.KL\<close> is \<open>0.5 * (log(p.var) - log(q.var) + q.var/p.var - 1 + (q.mu - p.mu)^2 / p.var)\<close>
  taken at entry \<open>i\<close>; and the KL contribution of a \<open>dense_var\<close> layer with a normal posterior
  (\<open>mixtures <= 1\<close>) is the sum of these entries for the weights plus the sum for the biases.
\<close>

theorem Normal_KL_closed_form:
  "(well_shaped (mu q) \<and> well_shaped (var q) \<and> well_shaped (mu p) \<and> well_shaped (var p)
      \<and> shape (var q) = shape (mu q) \<and> shape (mu p) = shape (mu q)
      \<and> is_suffix (shape (var p)) (shape (mu q))
    \<longrightarrow> Normal_KL q p =
          Inr (Tensor (shape (mu q))
                (map (\<lambda>i. KL_formula (elem (mu q) i) (elem (var q) i) (elem (mu p) i) (elem (var p) i))
                     [0..<prod_list (shape (mu q))])))
   \<and> (mixtures \<le> 1 \<and> dense_var pos od reg lp mixtures X w = (Inr (Phi, KL), w')
    \<longrightarrow> (\<exists>d pW pb qW qb w4. input_dim X = Inr d
           \<and> dense_params pos od reg lp mixtures d w = ((pW, pb, Norm qW, Norm qb), w4)
           \<and> KL = sum_list (map (\<lambda>i. KL_formula (elem (mu qW) i) (elem (var qW) i)
                                           (elem (mu pW) i) (elem (var pW) i)) [0..<d * od])
                + sum_list (map (\<lambda>i. KL_formula (elem (mu qb) i) (elem (var qb) i)
                                           (elem (mu pb) i) (elem (var pb) i)) [0..<od])))"
  using Normal_KL_entries [of q p] dense_var_KL_normal [of mixtures pos od reg lp X w Phi KL w']
  by blast

theorem Normal_KL_closed_form_witness:
  "Normal_KL (Normal_init (Tensor [2] [0, 1]) (Tensor [2] [1, 2])) (Normal_init (tf_zeros [2]) (scalar 1))
     = Inr (Tensor [2] [KL_formula 0 1 0 1, KL_formula 1 2 0 1])
   \<and> dense_var exp 1 1 False 1 [Tensor [1, 1] [0]] example_world =
       (Inr ([Tensor [1, 1] [0]], 0),
        example_world\<lparr>variables := [Tensor [1, 1] [0], Tensor [1, 1] [0], Tensor [1] [0], Tensor [1] [0]],
                       tf_used := 6\<rparr>)
   \<and> (\<exists>d pW pb qW qb w4. input_dim [Tensor [1, 1] [0]] = Inr d
           \<and> dense_params exp 1 1 False 1 d example_world = ((pW, pb, Norm qW, Norm qb), w4)
           \<and> (0::real) = sum_list (map (\<lambda>i. KL_formula (elem (mu qW) i) (elem (var qW) i)
                                           (elem (mu pW) i) (elem (var pW) i)) [0..<d * 1])
                + sum_list (map (\<lambda>i. KL_formula (elem (mu qb) i) (elem (var qb) i)
                                           (elem (mu pb) i) (elem (var pb) i)) [0..<1]))"
proof -
  let ?q = "Normal_init (Tensor [2] [0, 1]) (Tensor [2] [1, 2])"
  let ?p = "Normal_init (tf_zeros [2]) (scalar 1)"
  let ?w' = "example_world\<lparr>variables := [Tensor [1, 1] [0], Tensor [1, 1] [0], Tensor [1] [0], Tensor [1] [0]],
                       tf_used := 6\<rparr>"
  have h1: "well_shaped (mu ?q) \<and> well_shaped (var ?q) \<and> well_shaped (mu ?p) \<and> well_shaped (var ?p)
      \<and> shape (var ?q) = shape (mu ?q) \<and> shape (mu ?p) = shape (mu ?q)
      \<and> is_suffix (shape (var ?p)) (shape (mu ?q))"
    by (simp add: Normal_init_def well_shaped_def tf_zeros_def scalar_def is_suffix_def)
  have h2: "(1::int) \<le> 1 \<and> dense_var exp 1 1 False 1 [Tensor [1, 1] [0]] example_world = (Inr ([Tensor [1, 1] [0]], 0), ?w')"
    by (simp add: run_dense example_world_def)
  have two: "[0..<2] = [0, 1]" by (simp add: upt_rec)
  from Normal_KL_closed_form [of ?q ?p 1 exp 1 1 False "[Tensor [1, 1] [0]]" example_world "[Tensor [1, 1] [0]]" 0 ?w']
    h1 h2
  show ?thesis
    by (simp add: Normal_init_def tf_zeros_def scalar_def elem_def two)
qed

subsection \<open>Mapping layers over inputs\<close>

lemma chain_lengths:
  "chain layers Xs ws rs \<Longrightarrow> length Xs = length layers \<and> length rs = length layers"
  by (induction layers Xs ws rs rule: chain.induct) auto

lemma call_layers_chain:
  "chain layers Xs ws rs \<Longrightarrow> call_layers layers Xs (hd ws) = (Inr rs, last ws)"
  by (induction layers Xs ws rs rule: chain.induct) auto

lemma call_layers_raises:
  "chain ps Ys ws rs \<Longrightarrow> p X (last ws) = (Inl e, w') \<Longrightarrow>
     call_layers (ps @ p # qs) (Ys @ X # Zs) (hd ws) = (Inl e, w')"
  by (induction ps Ys ws rs rule: chain.induct) auto

text \<open>
  C7 (amended). When the input list and the layers differ in length, the build function
  of \<open>lmap\<close> raises the ValueError "Number of layers and inputs not the same!" and leaves
  the state alone. When the lengths match and there is at least one layer, the layers are
  run in turn, each on its own input. If they all return, the build function returns
  their outputs in order, with KL the sum of their KL contributions, in the state the last
  layer leaves. If one of them raises, the build function raises that exception, in the
  state that layer leaves, and the layers after it are not run.
\<close>

theorem lmap_build:
  "(length Xs \<noteq> length layers \<longrightarrow>
      lmap layers Xs w = (Inl (ValueError ''Number of layers and inputs not the same!''), w))
   \<and> (layers \<noteq> [] \<and> chain layers Xs ws rs \<longrightarrow>
        length Xs = length layers
        \<and> lmap layers Xs (hd ws) = (Inr (map fst rs, sum_list (map snd rs)), last ws))
   \<and> (chain ps Ys vs ss \<and> p X (last vs) = (Inl e, w') \<and> length Zs = length qs \<longrightarrow>
        length (Ys @ X # Zs) = length (ps @ p # qs)
        \<and> lmap (ps @ p # qs) (Ys @ X # Zs) (hd vs) = (Inl e, w'))"
proof (intro conjI impI)
  assume "length Xs \<noteq> length layers"
  then show "lmap layers Xs w = (Inl (ValueError ''Number of layers and inputs not the same!''), w)"
    by (simp add: lmap_def)
next
  assume a: "layers \<noteq> [] \<and> chain layers Xs ws rs"
  then show "length Xs = length layers" using chain_lengths by blast
next
  assume a: "layers \<noteq> [] \<and> chain layers Xs ws rs"
  then have len: "length Xs = length layers" "length rs = length layers"
    using chain_lengths by blast+
  with a have "rs \<noteq> []" by auto
  then obtain r rs' where rs: "rs = r # rs'" by (cases rs) auto
  show "lmap layers Xs (hd ws) = (Inr (map fst rs, sum_list (map snd rs)), last ws)"
    using a len call_layers_chain [of layers Xs ws rs] by (simp add: lmap_def rs)
next
  assume a: "chain ps Ys vs ss \<and> p X (last vs) = (Inl e, w') \<and> length Zs = length qs"
  then show "length (Ys @ X # Zs) = length (ps @ p # qs)"
    using chain_lengths [of ps Ys vs ss] by simp
next
  assume a: "chain ps Ys vs ss \<and> p X (last vs) = (Inl e, w') \<and> length Zs = length qs"
  then have len: "length (Ys @ X # Zs) = length (ps @ p # qs)"
    using chain_lengths [of ps Ys vs ss] by simp
  have "call_layers (ps @ p # qs) (Ys @ X # Zs) (hd vs) = (Inl e, w')"
    using a call_layers_raises [of ps Ys vs ss p X e w' qs Zs] by simp
  then show "lmap (ps @ p # qs) (Ys @ X # Zs) (hd vs) = (Inl e, w')"
    using len unfolding lmap_def by simp
qed

theorem lmap_build_witness:
  "lmap [eye, eye] [[scalar 1], [scalar 2], [scalar 3]] example_world
     = (Inl (ValueError ''Number of layers and inputs not the same!''), example_world)
   \<and> lmap [eye, eye] [[scalar 1], [scalar 2]] example_world
     = (Inr ([[scalar 1], [scalar 2]], 0), example_world)
   \<and> lmap [eye, activation (\<lambda>x. Inl (ValueError ''no'')), eye] [[scalar 1], [scalar 2], [scalar 3]] example_world
     = (Inl (ValueError ''no''), example_world)"
proof -
  let ?ls = "[eye, eye] :: (tensor list, tensor list) layer list"
  let ?bad = "activation (\<lambda>x. Inl (ValueError ''no'')) :: (tensor list, tensor list) layer"
  have c: "?ls \<noteq> [] \<and> chain ?ls [[scalar 1], [scalar 2]]
             [example_world, example_world, example_world] [([scalar 1], 0), ([scalar 2], 0)]"
    by (simp add: eye_def)
  have d: "length [[scalar 1], [scalar 2], [scalar 3]] \<noteq> length ?ls" by simp
  have f: "chain [eye] [[scalar 1]] [example_world, example_world] [([scalar 1], 0)]
           \<and> ?bad [scalar 2] (last [example_world, example_world]) = (Inl (ValueError ''no''), example_world)
           \<and> length [[scalar 3]] = length [eye :: (tensor list, tensor list) layer]"
    by (simp add: eye_def activation_def)
  from lmap_build [where Xs = "[[scalar 1], [scalar 2], [scalar 3]]" and layers = ?ls
        and w = example_world and ps = "[]" and Ys = "[]" and vs = "[]" and ss = "[]"]
    lmap_build [where Xs = "[[scalar 1], [scalar 2]]" and layers = ?ls
        and ws = "[example_world, example_world, example_world]"
        and rs = "[([scalar 1], 0), ([scalar 2], 0)]" and ps = "[]" and Ys = "[]" and vs = "[]" and ss = "[]"]
    lmap_build [where Xs = "[]" and layers = "[]" and ws = "[]" and rs = "[]"
        and ps = "[eye]" and Ys = "[[scalar 1]]" and vs = "[example_world, example_world]"
        and ss = "[([scalar 1], 0)]" and p = ?bad and X = "[scalar 2]" and e = "ValueError ''no''"
        and w' = example_world and Zs = "[[scalar 3]]" and qs = "[eye]"]
    c d f
  show ?thesis by simp
qed

text \<open>
  With no layer and no input the lengths match, and yet the build function raises: the
  unpacking of an empty \<open>zip\<close> fails.
\<close>

theorem lmap_no_layers_counterexample:
  "length ([] :: tensor list list) = length ([] :: (tensor list, tensor list) layer list)
   \<and> lmap ([] :: (tensor list, tensor list) layer list) [] example_world
       = (Inl (ValueError ''not enough values to unpack (expected 2, got 0)''), example_world)"
  by (simp add: lmap_def)

subsection \<open>Concatenation\<close>

text \<open>
  C4. Given two inputs of three samples each, of feature dimension 1, \<open>cat\<close> returns two
  tensors of feature dimension 3: it concatenates the samples of each input, where
  per-sample concatenation would return three tensors of feature dimension 2.
\<close>

theorem cat_joins_within_each_input:
  "cat [[Tensor [1, 1] [1], Tensor [1, 1] [2], Tensor [1, 1] [3]],
        [Tensor [1, 1] [11], Tensor [1, 1] [12], Tensor [1, 1] [13]]] example_world
   = (Inr ([Tensor [1, 3] [1, 2, 3], Tensor [1, 3] [11, 12, 13]], 0), example_world)"
  by (simp add: cat_def tf_concat1_def row_def)


subsection \<open>Kernel weights\<close>

lemma round53_small: "m < 2 ^ 53 \<Longrightarrow> round53 m = m"
proof -
  assume "m < 2 ^ 53"
  then have "floorlog 2 m \<le> 53" by (simp add: floorlog_le_iff)
  then show ?thesis by (simp add: round53_def)
qed

lemma round53_bounds:
  assumes "0 < m"
  shows "2 ^ (floorlog 2 m - 1) \<le> round53 m \<and> round53 m \<le> 2 ^ floorlog 2 m"
proof (cases "floorlog 2 m \<le> 53")
  case True
  then have "m < 2 ^ 53" by (simp add: floorlog_le_iff)
  then have "round53 m = m" by (rule round53_small)
  then show ?thesis using floorlog_bounds [of m 2] assms by simp
next
  case False
  define k where "k = floorlog 2 m - 53"
  define q where "q = m div 2 ^ k"
  have L: "floorlog 2 m = k + 53" "floorlog 2 m - 1 = k + 52" using False by (simp_all add: k_def)
  have lo: "2 ^ 52 * 2 ^ k \<le> m" and hi: "m < 2 ^ 53 * 2 ^ k"
    using floorlog_bounds [of m 2] assms by (simp_all add: L power_add mult.commute)
  have qlo: "2 ^ 52 \<le> q" unfolding q_def
    using lo by (simp add: less_eq_div_iff_mult_less_eq)
  have qhi: "q + 1 \<le> 2 ^ 53" unfolding q_def
    using hi less_mult_imp_div_less [of m "2 ^ 53" "2 ^ k"] by simp
  have a: "2 ^ 52 * 2 ^ k \<le> q * 2 ^ k" using qlo by (rule mult_le_mono1)
  have b: "(q + 1) * 2 ^ k \<le> 2 ^ 53 * 2 ^ k" using qhi by (rule mult_le_mono1)
  have c: "q * 2 ^ k \<le> (q + 1) * 2 ^ k" by simp
  have r: "round53 m = q * 2 ^ k \<or> round53 m = (q + 1) * 2 ^ k"
    by (simp add: round53_def Let_def k_def q_def)
  from r have "2 ^ 52 * 2 ^ k \<le> round53 m \<and> round53 m \<le> 2 ^ 53 * 2 ^ k"
  proof
    assume "round53 m = q * 2 ^ k"
    then show ?thesis using a b c by linarith
  next
    assume "round53 m = (q + 1) * 2 ^ k"
    then show ?thesis using a b c by linarith
  qed
  then show ?thesis by (simp add: L power_add mult.commute)
qed

lemma round53_pos: "0 < m \<Longrightarrow> 0 < round53 m"
proof -
  assume m: "0 < m"
  have "(0::nat) < 2 ^ (floorlog 2 m - 1)" by simp
  with round53_bounds [OF m] show ?thesis by linarith
qed

lemma round53_below: "0 < m \<Longrightarrow> m < 2 ^ n \<Longrightarrow> round53 m \<le> 2 ^ n"
proof -
  assume m: "0 < m" and "m < 2 ^ n"
  then have "floorlog 2 m \<le> n" by (simp add: floorlog_le_iff)
  then have "(2::nat) ^ floorlog 2 m \<le> 2 ^ n" by simp
  with round53_bounds [OF m] show ?thesis by linarith
qed

lemma round53_above: "2 ^ n \<le> m \<Longrightarrow> 2 ^ n \<le> round53 m"
proof -
  assume a: "2 ^ n \<le> m"
  have "(0::nat) < 2 ^ n" by simp
  with a have m: "0 < m" by linarith
  from a have "n + 1 \<le> floorlog 2 m" by (intro floorlog_geI) simp_all
  then have "(2::nat) ^ n \<le> 2 ^ (floorlog 2 m - 1)" by simp
  with round53_bounds [OF m] show ?thesis by linarith
qed

lemma Matern_df_exact:
  assumes "0 \<le> p" "p < 2 ^ 52"
  shows "Matern_df p = Inr (2 * (real_of_int p + 0.5))"
proof -
  have "nat p < 2 ^ 53" using assms by (simp add: nat_less_iff)
  then have "round53 (nat p) = nat p" by (rule round53_small)
  then have f: "sgn p * int (round53 (nat \<bar>p\<bar>)) = p"
    using assms by (cases "p = 0") simp_all
  have "nat (2 * p + 1) < 2 ^ 53" using assms by (simp add: nat_less_iff)
  then have "round53 (nat (2 * p + 1)) = nat (2 * p + 1)" by (rule round53_small)
  then have t: "sgn (2 * p + 1) * int (round53 (nat \<bar>2 * p + 1\<bar>)) = 2 * p + 1"
    using assms by simp
  have small: "\<not> (2::int) ^ 1024 \<le> \<bar>p\<bar>" "\<not> (2::int) ^ 1024 \<le> 2 * p + 1"
    using assms by simp_all
  show ?thesis
    unfolding Matern_df_def Let_def f t using small by simp
qed

lemma Matern_df_negative:
  assumes "p < 0" "- (2 ^ 1023) < p"
  shows "\<exists>df. Matern_df p = Inr df \<and> df < 0"
proof -
  define a where "a = round53 (nat \<bar>p\<bar>)"
  have n: "0 < nat \<bar>p\<bar>" "nat \<bar>p\<bar> < 2 ^ 1023" using assms by (simp_all add: nat_less_iff)
  have a: "0 < a" "a \<le> 2 ^ 1023"
    unfolding a_def using round53_pos [OF n(1)] round53_below [OF n] by simp_all
  have f: "sgn p * int (round53 (nat \<bar>p\<bar>)) = - int a" using assms by (simp add: a_def)
  have fs: "\<not> (2::int) ^ 1024 \<le> \<bar>- int a\<bar>"
  proof -
    have "int a \<le> 2 ^ 1023" using a(2) by (metis of_nat_le_iff of_nat_numeral of_nat_power)
    then show ?thesis by simp
  qed
  define b where "b = round53 (nat \<bar>2 * (- int a) + 1\<bar>)"
  have "0 < nat \<bar>2 * (- int a) + 1\<bar>" using a by simp
  then have b: "0 < b" unfolding b_def by (rule round53_pos)
  have t: "sgn (2 * (- int a) + 1) * int (round53 (nat \<bar>2 * (- int a) + 1\<bar>)) = - int b"
    using a by (simp add: b_def)
  have bs: "\<not> (2::int) ^ 1024 \<le> - int b" using b by simp
  have "Matern_df p = Inr (real_of_int (- int b))"
    unfolding Matern_df_def Let_def f t using fs bs by simp
  then show ?thesis using b by simp
qed

lemma Matern_df_overflow:
  assumes "2 ^ 1024 \<le> \<bar>p\<bar>"
  shows "Matern_df p = Inl (OverflowError ''int too large to convert to float'')"
proof -
  have "2 ^ 1024 \<le> nat \<bar>p\<bar>" using assms by (simp add: le_nat_iff)
  then have "2 ^ 1024 \<le> round53 (nat \<bar>p\<bar>)" by (rule round53_above)
  then have "(2::int) ^ 1024 \<le> int (round53 (nat \<bar>p\<bar>))"
    by (metis of_nat_le_iff of_nat_numeral of_nat_power)
  moreover have "\<bar>sgn p * int (round53 (nat \<bar>p\<bar>))\<bar> = int (round53 (nat \<bar>p\<bar>))"
    using assms by (cases "p < 0") (simp_all add: abs_mult)
  ultimately show ?thesis by (simp add: Matern_df_def Let_def)
qed


lemma RBF_weights_value:
  "RBF_weights l d n w =
     (Inr (Tensor [d, n] (map (\<lambda>i. np_normal w (np_used w + i) / l) [0..<d * n])),
      w\<lparr>np_used := np_used w + d * n\<rparr>)"
  by (simp add: RBF_weights_def np_random_randn_def tmap_def o_def)

lemma Matern_weights_value:
  assumes "0 \<le> p" "p < 2 ^ 52"
  shows "Matern_weights p l d n w =
     (Inr (Tensor [d, n]
            (map (\<lambda>i. np_normal w (np_used w + i)
                       * sqrt (2 * (real_of_int p + 0.5)
                               / np_chisq w (2 * (real_of_int p + 0.5)) (np_used w + d * n + i mod n))
                       / l)
                 [0..<d * n])),
      w\<lparr>np_used := np_used w + d * n + n\<rparr>)"
proof -
  have df: "\<not> 2 * (real_of_int p + 0.5) \<le> 0" using assms by simp
  have suf: "is_suffix [n] [d, n]" by (simp add: is_suffix_def)
  have b: "broadcast f (Tensor [d, n] (map g [0..<d * n])) (Tensor [n] (map h [0..<n]))
        = Inr (Tensor [d, n] (map (\<lambda>i. f (g i) (h (i mod n))) [0..<d * n]))" for f g h
    using broadcast_tab_right [OF suf, of f g h] by simp
  show ?thesis
    using df
    by (simp add: Matern_weights_def Matern_df_exact [OF assms] np_random_randn_def
        np_random_chisquare_def tmul_def lift2_def lift1_def tmap_tab b add.assoc)
qed

lemma Matern_weights_negative:
  assumes "p < 0" "- (2 ^ 1023) < p"
  shows "Matern_weights p l d n w = (Inl (ValueError ''df <= 0''), w\<lparr>np_used := np_used w + d * n\<rparr>)"
proof -
  from Matern_df_negative [OF assms] obtain df where "Matern_df p = Inr df" "df < 0" by blast
  then show ?thesis
    by (simp add: Matern_weights_def np_random_randn_def np_random_chisquare_def)
qed

lemma Matern_weights_overflow:
  assumes "2 ^ 1024 \<le> \<bar>p\<bar>"
  shows "Matern_weights p l d n w = (Inl (OverflowError ''int too large to convert to float''), w)"
  by (simp add: Matern_weights_def Matern_df_overflow [OF assms])

text \<open>
  C9 (amended). \<open>np_normal\<close> and \<open>np_chisq df\<close> are the successive variates of numpy's
  generator: independent standard-normal ones, and independent chi-square ones with \<open>df\<close>
  degrees of freedom. For an integer \<open>0 <= p < 2 ^ 52\<close> and a positive lenscale,
  \<open>Matern.weights\<close> takes \<open>df = 2 * (p + 0.5)\<close>, draws \<open>input_dim * n_features\<close> normal
  variates \<open>y\<close> and then \<open>n_features\<close> chi-square variates \<open>u\<close> with \<open>df\<close> degrees of freedom,
  and returns the matrix whose entry in column \<open>j\<close> is \<open>y * sqrt(df / u[j]) / lenscale\<close>. For
  \<open>- 2 ^ 1023 < p < 0\<close> the chi-square draw raises ValueError, after the normal variates
  have been drawn; for \<open>|p| >= 2 ^ 1024\<close> the conversion of \<open>p\<close> to a float raises
  OverflowError before anything is drawn. \<open>RBF.weights\<close> returns a matrix whose entries are
  the next \<open>input_dim * n_features\<close> normal variates, each entry its own variate, divided by
  lenscale; invoked again in the state the first invocation leaves, it reads the variates
  that follow, not the same ones.
\<close>

theorem kernel_weights_draw:
  "(0 \<le> p \<and> p < 2 ^ 52 \<and> 0 < lenscale \<longrightarrow>
      Matern_weights p lenscale d n w =
        (Inr (Tensor [d, n]
               (map (\<lambda>i. np_normal w (np_used w + i)
                          * sqrt (2 * (real_of_int p + 0.5)
                                  / np_chisq w (2 * (real_of_int p + 0.5)) (np_used w + d * n + i mod n))
                          / lenscale)
                    [0..<d * n])),
         w\<lparr>np_used := np_used w + d * n + n\<rparr>))
   \<and> (p < 0 \<and> - (2 ^ 1023) < p \<longrightarrow>
        Matern_weights p lenscale d n w =
          (Inl (ValueError ''df <= 0''), w\<lparr>np_used := np_used w + d * n\<rparr>))
   \<and> (2 ^ 1024 \<le> \<bar>p\<bar> \<longrightarrow>
        Matern_weights p lenscale d n w =
          (Inl (OverflowError ''int too large to convert to float''), w))
   \<and> (0 < lenscale \<longrightarrow>
        RBF_weights lenscale d n w =
          (Inr (Tensor [d, n] (map (\<lambda>i. np_normal w (np_used w + i) / lenscale) [0..<d * n])),
           w\<lparr>np_used := np_used w + d * n\<rparr>)
        \<and> RBF_weights lenscale d n (w\<lparr>np_used := np_used w + d * n\<rparr>) =
          (Inr (Tensor [d, n] (map (\<lambda>i. np_normal w (np_used w + d * n + i) / lenscale) [0..<d * n])),
           w\<lparr>np_used := np_used w + d * n + d * n\<rparr>))"
proof (intro conjI impI)
  assume "0 \<le> p \<and> p < 2 ^ 52 \<and> 0 < lenscale"
  then show "Matern_weights p lenscale d n w =
        (Inr (Tensor [d, n]
               (map (\<lambda>i. np_normal w (np_used w + i)
                          * sqrt (2 * (real_of_int p + 0.5)
                                  / np_chisq w (2 * (real_of_int p + 0.5)) (np_used w + d * n + i mod n))
                          / lenscale)
                    [0..<d * n])),
         w\<lparr>np_used := np_used w + d * n + n\<rparr>)"
    using Matern_weights_value [of p lenscale d n w] by blast
next
  assume "p < 0 \<and> - (2 ^ 1023) < p"
  then show "Matern_weights p lenscale d n w =
          (Inl (ValueError ''df <= 0''), w\<lparr>np_used := np_used w + d * n\<rparr>)"
    using Matern_weights_negative [of p lenscale d n w] by blast
next
  assume "2 ^ 1024 \<le> \<bar>p\<bar>"
  then show "Matern_weights p lenscale d n w =
          (Inl (OverflowError ''int too large to convert to float''), w)"
    by (rule Matern_weights_overflow)
next
  show "RBF_weights lenscale d n w =
          (Inr (Tensor [d, n] (map (\<lambda>i. np_normal w (np_used w + i) / lenscale) [0..<d * n])),
           w\<lparr>np_used := np_used w + d * n\<rparr>)"
    by (rule RBF_weights_value)
next
  show "RBF_weights lenscale d n (w\<lparr>np_used := np_used w + d * n\<rparr>) =
          (Inr (Tensor [d, n] (map (\<lambda>i. np_normal w (np_used w + d * n + i) / lenscale) [0..<d * n])),
           w\<lparr>np_used := np_used w + d * n + d * n\<rparr>)"
    by (simp add: RBF_weights_value add.assoc)
qed

theorem kernel_weights_draw_witness:
  "Matern_weights 1 1 2 2 example_world =
     (Inr (Tensor [2, 2] [0, sqrt 3, 2 * sqrt 3, 3 * sqrt 3]), example_world\<lparr>np_used := 6\<rparr>)
   \<and> Matern_weights (- 2) 1 2 2 example_world =
     (Inl (ValueError ''df <= 0''), example_world\<lparr>np_used := 4\<rparr>)
   \<and> Matern_weights (2 ^ 1024) 1 2 2 example_world =
     (Inl (OverflowError ''int too large to convert to float''), example_world)
   \<and> RBF_weights 2 2 2 example_world =
     (Inr (Tensor [2, 2] [0, 1 / 2, 1, 3 / 2]), example_world\<lparr>np_used := 4\<rparr>)
   \<and> RBF_weights 2 2 2 (example_world\<lparr>np_used := 4\<rparr>) =
     (Inr (Tensor [2, 2] [2, 5 / 2, 3, 7 / 2]), example_world\<lparr>np_used := 8\<rparr>)"
proof -
  have four: "[0..<4] = [0, 1, 2, 3]" by (simp add: upt_rec)
  have h1: "(0::int) \<le> 1 \<and> (1::int) < 2 ^ 52 \<and> (0::real) < 1" by simp
  have h2: "(- 2 :: int) < 0 \<and> - (2 ^ 1023) < (- 2 :: int)" by simp
  have h3: "(2::int) ^ 1024 \<le> \<bar>2 ^ 1024\<bar>" by (rule abs_ge_self)
  have h4: "(0::real) < 2" by simp
  from kernel_weights_draw [of 1 1 2 2 example_world] h1
  have a: "Matern_weights 1 1 2 2 example_world =
     (Inr (Tensor [2, 2] [0, sqrt 3, 2 * sqrt 3, 3 * sqrt 3]), example_world\<lparr>np_used := 6\<rparr>)"
    by (simp add: example_world_def four)
  from kernel_weights_draw [of "- 2" 1 2 2 example_world] h2
  have b: "Matern_weights (- 2) 1 2 2 example_world =
     (Inl (ValueError ''df <= 0''), example_world\<lparr>np_used := 4\<rparr>)"
    by (simp add: example_world_def)
  from kernel_weights_draw [of "2 ^ 1024" 1 2 2 example_world] h3
  have c: "Matern_weights (2 ^ 1024) 1 2 2 example_world =
     (Inl (OverflowError ''int too large to convert to float''), example_world)"
    by blast
  from kernel_weights_draw [of 1 2 2 2 example_world] h4
  have d: "RBF_weights 2 2 2 example_world =
     (Inr (Tensor [2, 2] [0, 1 / 2, 1, 3 / 2]), example_world\<lparr>np_used := 4\<rparr>)
   \<and> RBF_weights 2 2 2 (example_world\<lparr>np_used := 4\<rparr>) =
     (Inr (Tensor [2, 2] [2, 5 / 2, 3, 7 / 2]), example_world\<lparr>np_used := 8\<rparr>)"
    by (simp add: example_world_def four)
  from a b c d show ?thesis by blast
qed

text \<open>
  For \<open>p = -1\<close> the number of degrees of freedom is \<open>-1\<close>, and the chi-square draw raises.
  For \<open>p = 2 ^ 52\<close> the sum \<open>p + 0.5\<close> is halfway between two doubles and is rounded to
  \<open>p\<close>, so \<open>df\<close> is \<open>2 ^ 53\<close>, not \<open>2 * (p + 0.5) = 2 ^ 53 + 1\<close>.
\<close>

theorem Matern_p_counterexample:
  "Matern_weights (- 1) 1 1 1 example_world =
     (Inl (ValueError ''df <= 0''), example_world\<lparr>np_used := 1\<rparr>)
   \<and> Matern_df (2 ^ 52) = Inr (2 ^ 53)
   \<and> 2 * (real_of_int (2 ^ 52) + 0.5) = 2 ^ 53 + 1"
proof -
  have r1: "round53 (Suc 0) = Suc 0" by (rule round53_small) simp
  have a: "Matern_df (- 1) = Inr (- 1)"
    by (simp add: Matern_df_def Let_def r1)
  have c1: "Matern_weights (- 1) 1 1 1 example_world =
     (Inl (ValueError ''df <= 0''), example_world\<lparr>np_used := 1\<rparr>)"
    by (simp add: a Matern_weights_def np_random_randn_def np_random_chisquare_def example_world_def)
  have r2: "round53 4503599627370496 = 4503599627370496" by (rule round53_small) simp
  have fl: "floorlog 2 9007199254740993 = 54"
  proof (rule antisym)
    show "floorlog 2 9007199254740993 \<le> 54" by (simp add: floorlog_le_iff)
    show "54 \<le> floorlog 2 9007199254740993" by (rule floorlog_geI) simp_all
  qed
  have r3: "round53 9007199254740993 = 9007199254740992"
    by (simp add: round53_def Let_def fl)
  have c2: "Matern_df (2 ^ 52) = Inr (2 ^ 53)"
    by (simp add: Matern_df_def Let_def r2 r3)
  have c3: "2 * (real_of_int (2 ^ 52) + 0.5) = 2 ^ 53 + 1" by simp
  from c1 c2 c3 show ?thesis by blast
qed


subsection \<open>The parameters of a dense layer\<close>

lemma positive_tmap: "(\<forall>x. 0 < pos x) \<Longrightarrow> positive (tmap pos t)"
  by (simp add: positive_def tmap_def list_all_iff)

lemma routed_positive: "(\<forall>x. 0 < pos x) \<Longrightarrow> routed pos w t \<Longrightarrow> positive t"
  by (auto simp: routed_def list_ex_iff positive_tmap)

lemma routed_mono: "routed pos w t \<Longrightarrow> variables w' = variables w @ new \<Longrightarrow> routed pos w' t"
  by (auto simp: routed_def list_ex_iff)

lemma NormPosterior_routed:
  assumes "NormPosterior pos dims v w = (q, w')"
  shows "routed pos w' (var q) \<and> (\<exists>new. variables w' = variables w @ new \<and> length new = 2)"
proof -
  from NormPosterior_props [OF assms] obtain raw where
    raw: "var q = tmap pos raw" "variables w' = variables w @ [mu q, raw]" by blast
  then have "routed pos w' (var q)" by (simp add: routed_def)
  moreover have "variables w' = variables w @ [mu q, raw] \<and> length [mu q, raw] = 2"
    using raw by simp
  ultimately show ?thesis by blast
qed

lemma make_comps_props:
  "make_comps pos dims v n w = (qs, w') \<Longrightarrow>
     (\<exists>new. variables w' = variables w @ new \<and> length new = 2 * n)
     \<and> list_all (\<lambda>q. routed pos w' (var q)) qs"
proof (induction n arbitrary: w qs w')
  case 0
  then show ?case by simp
next
  case (Suc n)
  obtain q w1 where q: "NormPosterior pos dims v w = (q, w1)"
    by (cases "NormPosterior pos dims v w") auto
  obtain qs' w2 where r: "make_comps pos dims v n w1 = (qs', w2)"
    by (cases "make_comps pos dims v n w1") auto
  from Suc.prems q r have eq: "qs = q # qs'" "w' = w2" by auto
  from NormPosterior_routed [OF q] obtain new1 where
    n1: "routed pos w1 (var q)" "variables w1 = variables w @ new1" "length new1 = 2" by blast
  from Suc.IH [OF r] obtain new2 where
    n2: "variables w2 = variables w1 @ new2" "length new2 = 2 * n"
      "list_all (\<lambda>q. routed pos w2 (var q)) qs'" by blast
  have a: "variables w' = variables w @ (new1 @ new2) \<and> length (new1 @ new2) = 2 * Suc n"
    using eq n1 n2 by simp
  have b: "routed pos w2 (var q)" using n1(1) n2(1) by (rule routed_mono)
  from a b n2(3) eq show ?case by auto
qed

lemma MixPosterior_props:
  assumes "MixPosterior pos dims v K w = (m, w')"
  shows "(\<exists>new. variables w' = variables w @ new \<and> length new = 2 * nat K)
         \<and> list_all (\<lambda>q. routed pos w' (var q)) (comps m)"
proof -
  obtain qs w1 where r: "make_comps pos dims v (nat K) w = (qs, w1)"
    by (cases "make_comps pos dims v (nat K) w") auto
  with assms have "comps m = qs" "w' = w1" by (auto simp: MixPosterior_def)
  then show ?thesis using make_comps_props [OF r] by simp
qed

lemma NormPrior_routed:
  assumes "NormPrior pos dims v l w = (p, w')"
  shows "(if l then routed pos w' (var p) else var p = scalar v)
         \<and> (\<exists>new. variables w' = variables w @ new \<and> length new = (if l then 1 else 0))"
  using assms
  by (auto simp: NormPrior_def tf_Variable_def Normal_init_def routed_def split: if_splits)

lemma list_all_routed_mono:
  "list_all (\<lambda>q. routed pos w (var q)) qs \<Longrightarrow> variables w' = variables w @ new
     \<Longrightarrow> list_all (\<lambda>q. routed pos w' (var q)) qs"
  by (auto simp: list_all_iff intro: routed_mono)

lemma dense_params_props:
  assumes dp: "dense_params pos od reg lp mixtures d w = ((pW, pb, qW, qb), w')"
  shows "routed_posterior pos w' qW \<and> routed_posterior pos w' qb
         \<and> (if lp then routed pos w' (var pW) \<and> routed pos w' (var pb)
             else var pW = scalar reg \<and> var pb = scalar reg)
         \<and> (\<exists>new. variables w' = variables w @ new
               \<and> length new = (if lp then 2 else 0) + (if 1 < mixtures then 4 * nat mixtures else 4))"
proof -
  obtain pW' w1 where a: "NormPrior pos [d, od] reg lp w = (pW', w1)"
    by (cases "NormPrior pos [d, od] reg lp w") auto
  obtain pb' w2 where b: "NormPrior pos [od] reg lp w1 = (pb', w2)"
    by (cases "NormPrior pos [od] reg lp w1") auto
  from NormPrior_routed [OF a] obtain n1 where
    n1: "if lp then routed pos w1 (var pW') else var pW' = scalar reg"
      "variables w1 = variables w @ n1" "length n1 = (if lp then 1 else 0)" by blast
  from NormPrior_routed [OF b] obtain n2 where
    n2: "if lp then routed pos w2 (var pb') else var pb' = scalar reg"
      "variables w2 = variables w1 @ n2" "length n2 = (if lp then 1 else 0)" by blast
  show ?thesis
  proof (cases "mixtures > 1")
    case True
    obtain mW w3 where c: "MixPosterior pos [d, od] reg mixtures w2 = (mW, w3)"
      by (cases "MixPosterior pos [d, od] reg mixtures w2") auto
    obtain mb w4 where e: "MixPosterior pos [od] reg mixtures w3 = (mb, w4)"
      by (cases "MixPosterior pos [od] reg mixtures w3") auto
    from dp a b c e True have eq: "pW = pW'" "pb = pb'" "qW = Mix mW" "qb = Mix mb" "w' = w4"
      by (auto simp: dense_params_def)
    from MixPosterior_props [OF c] obtain n3 where
      n3: "variables w3 = variables w2 @ n3" "length n3 = 2 * nat mixtures"
        "list_all (\<lambda>q. routed pos w3 (var q)) (comps mW)" by blast
    from MixPosterior_props [OF e] obtain n4 where
      n4: "variables w4 = variables w3 @ n4" "length n4 = 2 * nat mixtures"
        "list_all (\<lambda>q. routed pos w4 (var q)) (comps mb)" by blast
    have v: "variables w4 = variables w @ (n1 @ n2 @ n3 @ n4)"
      using n1 n2 n3 n4 by simp
    have l: "length (n1 @ n2 @ n3 @ n4) = (if lp then 2 else 0) + (if 1 < mixtures then 4 * nat mixtures else 4)"
      using n1 n2 n3 n4 True by simp
    have qW: "list_all (\<lambda>q. routed pos w4 (var q)) (comps mW)"
      using n3(3) n4(1) by (rule list_all_routed_mono)
    have pr: "if lp then routed pos w4 (var pW') \<and> routed pos w4 (var pb')
              else var pW' = scalar reg \<and> var pb' = scalar reg"
    proof (cases lp)
      case True
      have "variables w4 = variables w1 @ (n2 @ n3 @ n4)" using n2 n3 n4 by simp
      moreover have "variables w4 = variables w2 @ (n3 @ n4)" using n3 n4 by simp
      ultimately show ?thesis using True n1(1) n2(1) by (auto intro: routed_mono)
    next
      case False
      then show ?thesis using n1(1) n2(1) by simp
    qed
    from v l have "\<exists>new. variables w4 = variables w @ new
               \<and> length new = (if lp then 2 else 0) + (if 1 < mixtures then 4 * nat mixtures else 4)"
      by blast
    then show ?thesis using eq qW n4(3) pr by simp
  next
    case False
    obtain nW w3 where c: "NormPosterior pos [d, od] reg w2 = (nW, w3)"
      by (cases "NormPosterior pos [d, od] reg w2") auto
    obtain nb w4 where e: "NormPosterior pos [od] reg w3 = (nb, w4)"
      by (cases "NormPosterior pos [od] reg w3") auto
    from dp a b c e False have eq: "pW = pW'" "pb = pb'" "qW = Norm nW" "qb = Norm nb" "w' = w4"
      by (auto simp: dense_params_def)
    from NormPosterior_routed [OF c] obtain n3 where
      n3: "routed pos w3 (var nW)" "variables w3 = variables w2 @ n3" "length n3 = 2" by blast
    from NormPosterior_routed [OF e] obtain n4 where
      n4: "routed pos w4 (var nb)" "variables w4 = variables w3 @ n4" "length n4 = 2" by blast
    have v: "variables w4 = variables w @ (n1 @ n2 @ n3 @ n4)"
      using n1 n2 n3 n4 by simp
    have l: "length (n1 @ n2 @ n3 @ n4) = (if lp then 2 else 0) + (if 1 < mixtures then 4 * nat mixtures else 4)"
      using n1 n2 n3 n4 False by simp
    have qW: "routed pos w4 (var nW)" using n3(1) n4(2) by (rule routed_mono)
    have pr: "if lp then routed pos w4 (var pW') \<and> routed pos w4 (var pb')
              else var pW' = scalar reg \<and> var pb' = scalar reg"
    proof (cases lp)
      case True
      have "variables w4 = variables w1 @ (n2 @ n3 @ n4)" using n2 n3 n4 by simp
      moreover have "variables w4 = variables w2 @ (n3 @ n4)" using n3 n4 by simp
      ultimately show ?thesis using True n1(1) n2(1) by (auto intro: routed_mono)
    next
      case False
      then show ?thesis using n1(1) n2(1) by simp
    qed
    from v l have "\<exists>new. variables w4 = variables w @ new
               \<and> length new = (if lp then 2 else 0) + (if 1 < mixtures then 4 * nat mixtures else 4)"
      by blast
    then show ?thesis using eq qW n4(1) pr by simp
  qed
qed

lemma routed_posterior_positive:
  "(\<forall>x. 0 < pos x) \<Longrightarrow> routed_posterior pos w q \<Longrightarrow> positive_posterior q"
  by (cases q) (auto simp: list_all_iff intro: routed_positive)

text \<open>
  C3 (amended). Of the distributions that \<open>build_dense\<close> creates, every posterior variance
  (of each component, for a mixture) is the positivity transform of a variable of the
  graph, and so is the prior variance when \<open>learn_prior\<close> is true; with \<open>learn_prior\<close> false
  the prior variance is the number \<open>reg\<close> itself. Hence, for a transform whose values are all
  positive, the posterior variances are positive, and the prior variances are positive
  exactly when \<open>learn_prior\<close> is true or \<open>reg > 0\<close>.
\<close>

theorem dense_var_variances_positive:
  "dense_params pos od reg lp mixtures d w = ((pW, pb, qW, qb), w')
   \<longrightarrow> routed_posterior pos w' qW \<and> routed_posterior pos w' qb
       \<and> (if lp then routed pos w' (var pW) \<and> routed pos w' (var pb)
           else var pW = scalar reg \<and> var pb = scalar reg)
       \<and> ((\<forall>x. 0 < pos x) \<longrightarrow>
             positive_posterior qW \<and> positive_posterior qb
             \<and> ((lp \<or> 0 < reg) = (positive (var pW) \<and> positive (var pb))))"
proof
  assume dp: "dense_params pos od reg lp mixtures d w = ((pW, pb, qW, qb), w')"
  note P = dense_params_props [OF dp]
  have "positive_posterior qW \<and> positive_posterior qb
        \<and> ((lp \<or> 0 < reg) = (positive (var pW) \<and> positive (var pb)))" if pos: "\<forall>x. 0 < pos x"
  proof (cases lp)
    case True
    then show ?thesis using P pos routed_posterior_positive [OF pos] routed_positive [OF pos]
      by auto
  next
    case False
    then show ?thesis using P pos routed_posterior_positive [OF pos]
      by (auto simp: positive_def scalar_def)
  qed
  then show "routed_posterior pos w' qW \<and> routed_posterior pos w' qb
       \<and> (if lp then routed pos w' (var pW) \<and> routed pos w' (var pb)
           else var pW = scalar reg \<and> var pb = scalar reg)
       \<and> ((\<forall>x. 0 < pos x) \<longrightarrow>
             positive_posterior qW \<and> positive_posterior qb
             \<and> ((lp \<or> 0 < reg) = (positive (var pW) \<and> positive (var pb))))"
    using P by simp
qed

text \<open>
  With \<open>learn_prior\<close> false and \<open>reg = 0\<close> the prior variance is 0: it has not passed
  through the positivity transform.
\<close>

theorem dense_var_prior_variance_counterexample:
  "var (fst (fst (dense_params exp 1 0 False 1 1 example_world))) = scalar 0
   \<and> \<not> positive (var (fst (fst (dense_params exp 1 0 False 1 1 example_world))))"
  by (simp add: run_dense example_world_def positive_def)


theorem dense_var_variances_positive_witness:
  "positive (var (fst (fst (dense_params exp 1 1 True 2 1 example_world))))
   \<and> positive (var (fst (snd (fst (dense_params exp 1 1 True 2 1 example_world)))))
   \<and> positive_posterior (fst (snd (snd (fst (dense_params exp 1 1 True 2 1 example_world)))))
   \<and> positive_posterior (snd (snd (snd (fst (dense_params exp 1 1 True 2 1 example_world)))))"
proof -
  obtain pW pb qW qb w' where
    dp: "dense_params exp 1 1 True 2 1 example_world = ((pW, pb, qW, qb), w')"
    by (cases "dense_params exp 1 1 True 2 1 example_world") auto
  have "\<forall>x::real. 0 < exp x" by simp
  with dense_var_variances_positive [of exp 1 1 True 2 1 example_world pW pb qW qb w'] dp
  have "positive (var pW) \<and> positive (var pb) \<and> positive_posterior qW \<and> positive_posterior qb"
    by simp
  then show ?thesis unfolding dp by simp
qed











subsection \<open>The KL bound of a mixture\<close>

lemma example_mixture_value:
  "example_mixture =
     \<lparr>comps = [Normal_init (Tensor [1] [0]) (Tensor [1] [1]), Normal_init (Tensor [1] [0]) (Tensor [1] [1])],
      mixK = 2\<rparr>"
  by (simp add: example_mixture_def MixPosterior_def NormPosterior_def tf_random_normal_def
      tf_Variable_def Normal_init_def tmap_def example_world_def numeral_2_eq_2)

lemma example_prior_value:
  "example_prior = Normal_init (Tensor [1] [0]) (Tensor [] [1])"
  by (simp add: example_prior_def NormPrior_def Normal_init_def tf_zeros_def scalar_def)

lemmas run_ops = tadd_def tsub_def tmul_def tdiv_def tlog_def tsquare_def lift1_def lift2_def
  broadcast_def is_suffix_def elem_def tmap_def tf_reduce_sum_def bindE_def Normal_init_def

lemma log_norm_prior: "log_norm (Tensor [1] [0]) (Tensor [1] [0]) (Tensor [] [1]) = Inr (- ln (2 * pi) / 2)"
  by (simp add: log_norm_def run_ops)

lemma log_norm_overlap: "log_norm (Tensor [1] [0]) (Tensor [1] [0]) (Tensor [1] [2]) = Inr (- ln (4 * pi) / 2)"
  by (simp add: log_norm_def run_ops)

lemma ln_4pi: "ln (4 * pi) = ln 2 + ln (2 * pi)"
proof -
  have "ln (4 * pi) = ln (2 * (2 * pi))" by simp
  also have "\<dots> = ln 2 + ln (2 * pi)" by (rule ln_mult_pos) simp_all
  finally show ?thesis .
qed

lemma ln_two_exp: "ln (2 * exp a) = ln 2 + (a::real)"
proof -
  have "ln (2 * exp a) = ln 2 + ln (exp a)" by (rule ln_mult_pos) simp_all
  then show ?thesis by simp
qed

text \<open>
  C1. On the mixture of two components with mean 0 and variance 1 and the prior with mean
  0 and variance 1, \<open>_MixPosterior.KL\<close> returns \<open>log(2)/2 - 3/2\<close>, where the bound that takes
  \<open>log(K)\<close> from every overlap log-density is \<open>1/2 - log(2)/2\<close>: the code takes \<open>K\<close> itself.
\<close>

theorem MixPosterior_KL_subtracts_K:
  "MixPosterior_KL example_mixture example_prior = Inr (ln 2 / 2 - 3 / 2)
   \<and> MixPosterior_KL_spec example_mixture example_prior = Inr (1 / 2 - ln 2 / 2)"
proof -
  define q where "q = Normal_init (Tensor [1] [0]) (Tensor [1] [1])"
  have q: "mu q = Tensor [1] [0]" "var q = Tensor [1] [1]" by (simp_all add: q_def Normal_init_def)
  have p: "mu example_prior = Tensor [1] [0]" "var example_prior = Tensor [] [1]"
    by (simp_all add: example_prior_value Normal_init_def)
  have cs: "comps example_mixture = [q, q]" "mixK example_mixture = 2"
    by (simp_all add: example_mixture_value q_def)
  have sum: "tadd (Inr (var q)) (Inr (var q)) = Inr (Tensor [1] [2])"
    unfolding q by (simp add: run_ops)
  have lq: "mix_lq example_mixture q q = Inr (- ln (4 * pi) / 2 - 2)"
    unfolding mix_lq_def sum unfolding q cs by (simp add: bindE_def log_norm_overlap [simplified])
  have lqs: "mix_lq_spec example_mixture q q = Inr (- ln (4 * pi) / 2 - ln 2)"
    unfolding mix_lq_spec_def sum unfolding q cs by (simp add: bindE_def log_norm_overlap [simplified])
  have tr: "tdiv (Inr (var q)) (Inr (var example_prior)) = Inr (Tensor [1] [1])"
    unfolding q p by (simp add: run_ops)
  have lp: "log_norm (mu q) (mu example_prior) (var example_prior) = Inr (- ln (2 * pi) / 2)"
    unfolding q p by (rule log_norm_prior)
  have tm: "mix_term example_mixture example_prior q = Inr ((ln 2 / 2 - 3 / 2) / 2)"
    unfolding mix_term_def lp tr unfolding cs
    by (simp add: bindE_def lq tf_reduce_sum_def tf_reduce_logsumexp_def ln_two_exp ln_4pi; argo)
  have tms: "mix_term_spec example_mixture example_prior q = Inr ((1 / 2 - ln 2 / 2) / 2)"
    unfolding mix_term_spec_def lp tr unfolding cs
    by (simp add: bindE_def lqs tf_reduce_sum_def tf_reduce_logsumexp_def ln_two_exp ln_4pi; argo)
  have a: "MixPosterior_KL example_mixture example_prior = Inr (ln 2 / 2 - 3 / 2)"
    unfolding MixPosterior_KL_def cs by (simp add: bindE_def tm)
  have b: "MixPosterior_KL_spec example_mixture example_prior = Inr (1 / 2 - ln 2 / 2)"
    unfolding MixPosterior_KL_spec_def cs by (simp add: bindE_def tms)
  from a b show ?thesis by blast
qed


subsection \<open>Random Fourier features\<close>

lemma block_of_concat:
  "i < length xss \<Longrightarrow> \<forall>xs \<in> set xss. length xs = n \<Longrightarrow>
     take n (drop (i * n) (concat xss)) = xss ! i"
proof (induction xss arbitrary: i)
  case Nil
  then show ?case by simp
next
  case (Cons xs xss)
  show ?case
  proof (cases i)
    case 0
    then show ?thesis using Cons.prems by simp
  next
    case (Suc k)
    then have "take n (drop (k * n) (concat xss)) = xss ! k"
      using Cons.prems by (intro Cons.IH) auto
    then show ?thesis using Suc Cons.prems by simp
  qed
qed

lemma row_tab:
  assumes "i < r"
  shows "row (Tensor [r, n] (concat (map (\<lambda>i. map (g i) [0..<n]) [0..<r]))) i = map (g i) [0..<n]"
proof -
  have "take n (drop (i * n) (concat (map (\<lambda>i. map (g i) [0..<n]) [0..<r])))
        = map (\<lambda>i. map (g i) [0..<n]) [0..<r] ! i"
    by (rule block_of_concat) (use assms in auto)
  then show ?thesis using assms by (simp add: row_def)
qed

lemma tmap_rows:
  "tmap f (Tensor s (concat (map (\<lambda>i. map (g i) [0..<n]) [0..<r])))
     = Tensor s (concat (map (\<lambda>i. map (\<lambda>j. f (g i j)) [0..<n]) [0..<r]))"
  by (simp add: tmap_def map_concat o_def)

lemma phi_value:
  assumes x: "shape x = [r, d]" and P: "shape P = [d, n]"
  shows "phi n P x = Inr (fourier_features n P x)"
proof -
  let ?g = "\<lambda>i j. dot x P i j"
  have mm: "tf_matmul x P = Inr (Tensor [r, n] (concat (map (\<lambda>i. map (?g i) [0..<n]) [0..<r])))"
    by (simp add: tf_matmul_def x P dot_def)
  let ?C = "Tensor [r, n] (concat (map (\<lambda>i. map (\<lambda>j. cos (?g i j)) [0..<n]) [0..<r]))"
  let ?S = "Tensor [r, n] (concat (map (\<lambda>i. map (\<lambda>j. sin (?g i j)) [0..<n]) [0..<r]))"
  have rows: "map (\<lambda>i. row ?C i @ row ?S i) [0..<r]
              = map (\<lambda>i. map (\<lambda>j. cos (?g i j)) [0..<n] @ map (\<lambda>j. sin (?g i j)) [0..<n]) [0..<r]"
    by (rule map_cong [OF refl]) (simp add: row_tab)
  have cc: "tf_concat1 [?C, ?S]
            = Inr (Tensor [r, n + n]
                    (concat (map (\<lambda>i. map (\<lambda>j. cos (?g i j)) [0..<n] @ map (\<lambda>j. sin (?g i j)) [0..<n]) [0..<r])))"
    by (simp add: tf_concat1_def rows)
  have "phi n P x = Inr (tmap (\<lambda>v. v / sqrt (real n))
            (Tensor [r, n + n]
                    (concat (map (\<lambda>i. map (\<lambda>j. cos (?g i j)) [0..<n] @ map (\<lambda>j. sin (?g i j)) [0..<n]) [0..<r]))))"
    by (simp add: phi_def mm tmap_rows cc lift1_def)
  also have "\<dots> = Inr (fourier_features n P x)"
    by (simp add: fourier_features_def fourier_row_def [abs_def] tmap_def map_concat o_def x)
  finally show ?thesis .
qed

lemma collect_all_Inr:
  "\<forall>x \<in> set X. f x = Inr (g x) \<Longrightarrow> collect f X = Inr (map g X)"
  by (induction X) simp_all


lemma RBF_weights_state:
  "RBF_weights l d n w = (r, wa) \<Longrightarrow>
     (\<exists>P. r = Inr P \<and> shape P = [d, n]) \<and> wa = w\<lparr>np_used := np_used w + d * n\<rparr>"
  by (auto simp: RBF_weights_def np_random_randn_def tmap_def)

lemma Matern_weights_state:
  assumes "Matern_weights p l d n w = (Inr P, wa)"
  shows "shape P = [d, n] \<and> wa = w\<lparr>np_used := np_used w + d * n + n\<rparr>"
proof (cases "Matern_df p")
  case (Inl e)
  then show ?thesis using assms by (simp add: Matern_weights_def)
next
  case (Inr df)
  have suf: "is_suffix [n] [d, n]" by (simp add: is_suffix_def)
  have b: "broadcast f (Tensor [d, n] (map g [0..<d * n])) (Tensor [n] (map h [0..<n]))
        = Inr (Tensor [d, n] (map (\<lambda>i. f (g i) (h (i mod n))) [0..<d * n]))" for f g h
    using broadcast_tab_right [OF suf, of f g h] by simp
  show ?thesis
  proof (cases "df \<le> 0")
    case True
    then show ?thesis using assms Inr
      by (simp add: Matern_weights_def np_random_randn_def np_random_chisquare_def)
  next
    case False
    then show ?thesis using assms Inr
      by (auto simp: Matern_weights_def np_random_randn_def np_random_chisquare_def
          tmul_def lift2_def lift1_def tmap_tab b add.assoc)
  qed
qed

lemma weights_state:
  assumes "weights k d n w = (Inr P, wa)"
  shows "shape P = [d, n] \<and> variables wa = variables w \<and> tf_used wa = tf_used w"
proof (cases k)
  case (RBF l)
  then show ?thesis using assms RBF_weights_state [of l d n w "Inr P" wa] by auto
next
  case (Matern p l)
  then show ?thesis using assms Matern_weights_state [of p l d n w P wa] by auto
qed

lemma randomFourier_value:
  assumes ne: "X \<noteq> []"
    and sh: "list_all (\<lambda>x. length (shape x) = 2 \<and> shape x ! 1 = shape (hd X) ! 1) X"
    and wt: "weights (case kern of Some k \<Rightarrow> k | None \<Rightarrow> RBF 1) (shape (hd X) ! 1) n w = (Inr P, wa)"
  shows "randomFourier n kern X w = (Inr (map (fourier_features n P) X, 0), wa)"
proof -
  let ?d = "shape (hd X) ! 1"
  from ne obtain x0 X' where X: "X = x0 # X'" by (cases X) auto
  from sh X have "length (shape x0) = 2" by simp
  then obtain r0 d0 where s0: "shape x0 = [r0, d0]"
    by (cases "shape x0"; cases "tl (shape x0)") auto
  have d: "input_dim X = Inr ?d" using X s0 by (simp add: input_dim_def)
  have P: "shape P = [?d, n]" using weights_state [OF wt] by simp
  have "\<forall>x \<in> set X. phi n P x = Inr (fourier_features n P x)"
  proof
    fix x assume "x \<in> set X"
    with sh have a: "length (shape x) = 2" "shape x ! 1 = ?d" by (auto simp: list_all_iff)
    then obtain r where "shape x = [r, ?d]"
      by (cases "shape x"; cases "tl (shape x)") auto
    then show "phi n P x = Inr (fourier_features n P x)" using P by (rule phi_value)
  qed
  then have "collect (phi n P) X = Inr (map (fourier_features n P) X)"
    by (rule collect_all_Inr)
  then show ?thesis using d wt by (simp add: randomFourier_def)
qed

text \<open>
  C8 (amended). Given a list of at least one matrix, all with the feature dimension of the
  first, and a kernel whose \<open>weights\<close> returns a matrix \<open>P\<close>, one invocation of the build
  function of \<open>randomFourier\<close> draws \<open>P\<close> by that one call of \<open>weights\<close> and nothing else: it
  leaves the state \<open>weights\<close> leaves, with no variable and no TensorFlow random op added, so
  \<open>P\<close> is a constant of the graph. Every tensor of the list is mapped with this same \<open>P\<close>, to
  the cosines and sines of \<open>xP\<close> side by side, divided by \<open>sqrt(n_features)\<close>, and the KL
  contribution is 0.
\<close>

theorem randomFourier_build:
  "X \<noteq> [] \<and> list_all (\<lambda>x. length (shape x) = 2 \<and> shape x ! 1 = shape (hd X) ! 1) X
   \<and> weights (case kern of Some k \<Rightarrow> k | None \<Rightarrow> RBF 1) (shape (hd X) ! 1) n w = (Inr P, wa)
   \<longrightarrow> randomFourier n kern X w = (Inr (map (fourier_features n P) X, 0), wa)
       \<and> shape P = [shape (hd X) ! 1, n]
       \<and> variables wa = variables w \<and> tf_used wa = tf_used w"
  using randomFourier_value [of X kern n w P wa]
    weights_state [of "case kern of Some k \<Rightarrow> k | None \<Rightarrow> RBF 1" "shape (hd X) ! 1" n w P wa]
  by blast

theorem randomFourier_build_witness:
  "randomFourier 1 None [Tensor [1, 1] [1], Tensor [2, 1] [1, 2]] (example_world\<lparr>np_used := 1\<rparr>)
     = (Inr ([Tensor [1, 2] [cos 1, sin 1], Tensor [2, 2] [cos 1, sin 1, cos 2, sin 2]], 0),
        example_world\<lparr>np_used := 2\<rparr>)"
proof -
  let ?X = "[Tensor [1, 1] [1], Tensor [2, 1] [1, 2]]"
  have two: "[0..<2] = [0, 1]" by (simp add: upt_rec)
  have h: "?X \<noteq> [] \<and> list_all (\<lambda>x. length (shape x) = 2 \<and> shape x ! 1 = shape (hd ?X) ! 1) ?X
     \<and> weights (case None of Some k \<Rightarrow> k | None \<Rightarrow> RBF 1) (shape (hd ?X) ! 1) 1 (example_world\<lparr>np_used := 1\<rparr>)
         = (Inr (Tensor [1, 1] [1]), example_world\<lparr>np_used := 2\<rparr>)"
    by (simp add: RBF_weights_def np_random_randn_def tmap_def example_world_def)
  from randomFourier_build [of ?X None 1 "example_world\<lparr>np_used := 1\<rparr>" "Tensor [1, 1] [1]"
      "example_world\<lparr>np_used := 2\<rparr>"] h
  have "randomFourier 1 None ?X (example_world\<lparr>np_used := 1\<rparr>)
     = (Inr (map (fourier_features 1 (Tensor [1, 1] [1])) ?X, 0), example_world\<lparr>np_used := 2\<rparr>)"
    by blast
  then show ?thesis
    by (simp add: fourier_features_def fourier_row_def [abs_def] dot_def two)
qed

text \<open>
  The build function raises on an empty list, on a list whose tensors differ in feature
  dimension, and when the kernel's \<open>weights\<close> raises. Invoked twice on the same input, it
  draws twice: the second invocation maps the input with another \<open>P\<close>.
\<close>

theorem randomFourier_counterexample:
  "randomFourier 1 None [] example_world
     = (Inl (IndexError ''list index out of range''), example_world)
   \<and> randomFourier 1 None [Tensor [1, 1] [1], Tensor [1, 2] [1, 1]] example_world
     = (Inl shape_error, example_world\<lparr>np_used := 1\<rparr>)
   \<and> randomFourier 1 (Some (Matern (- 1) 1)) [Tensor [1, 1] [1]] example_world
     = (Inl (ValueError ''df <= 0''), example_world\<lparr>np_used := 1\<rparr>)
   \<and> randomFourier 1 None [Tensor [1, 1] [1]] example_world
     = (Inr ([Tensor [1, 2] [1, 0]], 0), example_world\<lparr>np_used := 1\<rparr>)
   \<and> randomFourier 1 None [Tensor [1, 1] [1]] (example_world\<lparr>np_used := 1\<rparr>)
     = (Inr ([Tensor [1, 2] [cos 1, sin 1]], 0), example_world\<lparr>np_used := 2\<rparr>)
   \<and> sin (1::real) \<noteq> 0"
proof -
  have a: "randomFourier 1 None [] example_world
     = (Inl (IndexError ''list index out of range''), example_world)"
    by (simp add: randomFourier_def input_dim_def)
  have b: "randomFourier 1 None [Tensor [1, 1] [1], Tensor [1, 2] [1, 1]] example_world
     = (Inl shape_error, example_world\<lparr>np_used := 1\<rparr>)"
    by (simp add: randomFourier_def input_dim_def RBF_weights_def np_random_randn_def tmap_def
        phi_def tf_matmul_def tf_concat1_def row_def lift1_def example_world_def)
  have r1: "round53 (Suc 0) = Suc 0" by (rule round53_small) simp
  have df: "Matern_df (- 1) = Inr (- 1)"
    by (simp add: Matern_df_def Let_def r1)
  have c: "randomFourier 1 (Some (Matern (- 1) 1)) [Tensor [1, 1] [1]] example_world
     = (Inl (ValueError ''df <= 0''), example_world\<lparr>np_used := 1\<rparr>)"
    by (simp add: randomFourier_def input_dim_def Matern_weights_def df np_random_randn_def
        np_random_chisquare_def example_world_def)
  have d: "randomFourier 1 None [Tensor [1, 1] [1]] example_world
     = (Inr ([Tensor [1, 2] [1, 0]], 0), example_world\<lparr>np_used := 1\<rparr>)"
    by (simp add: randomFourier_def input_dim_def RBF_weights_def np_random_randn_def tmap_def
        phi_def tf_matmul_def tf_concat1_def row_def lift1_def example_world_def)
  have e: "randomFourier 1 None [Tensor [1, 1] [1]] (example_world\<lparr>np_used := 1\<rparr>)
     = (Inr ([Tensor [1, 2] [cos 1, sin 1]], 0), example_world\<lparr>np_used := 2\<rparr>)"
    by (simp add: randomFourier_def input_dim_def RBF_weights_def np_random_randn_def tmap_def
        phi_def tf_matmul_def tf_concat1_def row_def lift1_def example_world_def)
  have "(1::real) < pi" using pi_ge_two by linarith
  then have "0 < sin (1::real)" by (intro sin_gt_zero) simp_all
  then have f: "sin (1::real) \<noteq> 0" by simp
  from a b c d e f show ?thesis by blast
qed

end
